theory Spec2Isabelle
  imports Complex_Main
begin

section \<open>Load Shift Optimizer: the REST boundary\<close>

text \<open>
  A shallow embedding of \<^verbatim>\<open>src/loadshift/models.py\<close> (the Pydantic request and
  response models) and \<^verbatim>\<open>src/loadshift/api.py\<close> (the two POST handlers).

  Conventions of the embedding.
  \<^item> Python \<^verbatim>\<open>float\<close> and NumPy \<^verbatim>\<open>float64\<close> values are idealised as \<^typ>\<open>real\<close>;
    rounding, infinities and NaN are outside the model.
  \<^item> Python \<^verbatim>\<open>int\<close> is \<^typ>\<open>int\<close>, \<^verbatim>\<open>Optional[int]\<close> is \<^typ>\<open>int option\<close>.
  \<^item> A raised exception is the \<open>Inl\<close> branch of a sum; \<open>Inr\<close> is a normal return.
  \<^item> \<^verbatim>\<open>loadshift.virtual_storage.VirtualStorage\<close> and
    \<^verbatim>\<open>loadshift.moving_horizon.moving_horizon\<close> are imported by \<^verbatim>\<open>api.py\<close> but
    their modules are not among the sources. The handlers take them as parameters.
\<close>

subsection \<open>Exceptions and HTTP errors\<close>

text \<open>
  The \<^verbatim>\<open>except\<close> clauses of the handlers dispatch on the class of the exception
  (\<^verbatim>\<open>ValueError\<close>, \<^verbatim>\<open>KeyError\<close>, any other \<^verbatim>\<open>Exception\<close>) and copy \<^verbatim>\<open>str(e)\<close> into the
  detail of the response. An exception is therefore its class, up to that dispatch, and
  its message.
\<close>

datatype exc_class = ValueError | KeyError | ZeroDivisionError | OtherException

datatype py_exception = PyExc exc_class string

text \<open>One entry of a Pydantic validation error: the kind of failure, by field.\<close>

datatype error_type = too_short | value_error | greater_than_equal | less_than_equal | greater_than

type_synonym error_details = "string \<times> error_type"

text \<open>
  What a client gets instead of a response body: FastAPI's 422 answer to a request that
  fails the model's validation (the handler is not called), or the \<^verbatim>\<open>HTTPException\<close> a
  handler raises, with its status code and detail.
\<close>

datatype api_error = RequestValidationError "error_details list" | HTTPException nat string

definition bind_exc :: "'e + 'a \<Rightarrow> ('a \<Rightarrow> 'e + 'b) \<Rightarrow> 'e + 'b" where
  "bind_exc m f = (case m of Inl e \<Rightarrow> Inl e | Inr x \<Rightarrow> f x)"

subsection \<open>Field constraints of \<^verbatim>\<open>pydantic.Field\<close>\<close>

definition min_length :: "nat \<Rightarrow> 'a list \<Rightarrow> error_type + 'a list" where
  "min_length n v = (if length v < n then Inl too_short else Inr v)"

definition ge :: "'a::linorder \<Rightarrow> 'a \<Rightarrow> error_type + 'a" where
  "ge bound v = (if bound \<le> v then Inr v else Inl greater_than_equal)"

definition le :: "'a::linorder \<Rightarrow> 'a \<Rightarrow> error_type + 'a" where
  "le bound v = (if v \<le> bound then Inr v else Inl less_than_equal)"

definition gt :: "'a::linorder \<Rightarrow> 'a \<Rightarrow> error_type + 'a" where
  "gt bound v = (if bound < v then Inr v else Inl greater_than)"

text \<open>The error list a field contributes: one entry when its validation failed.\<close>

definition field_errors :: "string \<Rightarrow> error_type + 'a \<Rightarrow> error_details list" where
  "field_errors loc r = (case r of Inl e \<Rightarrow> [(loc, e)] | Inr _ \<Rightarrow> [])"

text \<open>\<^verbatim>\<open>info.data\<close> holds a field only when that field validated.\<close>

definition info_data :: "error_type + 'a \<Rightarrow> 'a option" where
  "info_data r = (case r of Inl _ \<Rightarrow> None | Inr v \<Rightarrow> Some v)"

subsection \<open>\<^verbatim>\<open>OptimizationRequest\<close>\<close>

record optimization_request =
  price :: "real list"
  demand :: "real list"
  max_demand_advance :: int
  max_demand_delay :: int
  max_hourly_purchase :: real
  max_rate :: real
  enforce_charge_direction :: bool
  solver :: string
  n_control_hours :: "int option"

definition validate_arrays_not_empty :: "real list \<Rightarrow> error_type + real list" where
  "validate_arrays_not_empty v = (if length v = 0 then Inl value_error else Inr v)"

definition validate_demand_length :: "real list option \<Rightarrow> real list \<Rightarrow> error_type + real list" where
  "validate_demand_length info_price v =
     (case info_price of
        Some p \<Rightarrow> if length v \<noteq> length p then Inl value_error else Inr v
      | None \<Rightarrow> Inr v)"

text \<open>
  Pydantic validates the fields in the order of their declaration, runs a field's
  \<^verbatim>\<open>field_validator\<close>s (in the order of their definition) only after the field's own
  constraints held, collects the errors of all fields, and builds the model only when
  there is none.
\<close>

definition OptimizationRequest_errors :: "optimization_request \<Rightarrow> error_details list" where
  "OptimizationRequest_errors raw =
     (let v_price = bind_exc (min_length 1 (price raw)) validate_arrays_not_empty;
          v_demand = bind_exc (bind_exc (min_length 1 (demand raw)) validate_arrays_not_empty)
                       (validate_demand_length (info_data v_price))
      in field_errors ''price'' v_price
       @ field_errors ''demand'' v_demand
       @ field_errors ''max_demand_advance'' (ge 0 (max_demand_advance raw))
       @ field_errors ''max_demand_delay'' (ge 0 (max_demand_delay raw))
       @ field_errors ''max_hourly_purchase'' (gt 0 (max_hourly_purchase raw))
       @ field_errors ''max_rate'' (gt 0 (max_rate raw))
       @ (case n_control_hours raw of
            None \<Rightarrow> []
          | Some k \<Rightarrow> field_errors ''n_control_hours'' (ge 1 k)))"

definition OptimizationRequest :: "optimization_request \<Rightarrow> error_details list + optimization_request" where
  "OptimizationRequest raw =
     (if OptimizationRequest_errors raw = [] then Inr raw
      else Inl (OptimizationRequest_errors raw))"

subsection \<open>\<^verbatim>\<open>OptimizationResponse\<close>\<close>

record optimization_response =
  optimal_demand :: "real list"
  optimal_shift :: "real list"
  original_cost :: real
  optimized_cost :: real
  cost_savings :: real
  cost_savings_percent :: real
  remove_spillover :: "real list option"
  add_spillover :: "real list option"

subsection \<open>\<^verbatim>\<open>TimeSeriesData\<close>, \<^verbatim>\<open>LoadShiftConfig\<close>, \<^verbatim>\<open>MovingHorizonRequest\<close>\<close>

text \<open>
  The field \<^verbatim>\<open>values\<close> is written \<open>values'\<close>: the plain name is reserved in Isabelle.
\<close>

record time_series_data =
  timestamps :: "string list"
  values' :: "real list"

definition validate_values_length :: "string list option \<Rightarrow> real list \<Rightarrow> error_type + real list" where
  "validate_values_length info_timestamps v =
     (case info_timestamps of
        Some ts \<Rightarrow> if length v \<noteq> length ts then Inl value_error else Inr v
      | None \<Rightarrow> Inr v)"

definition TimeSeriesData_errors :: "time_series_data \<Rightarrow> error_details list" where
  "TimeSeriesData_errors raw =
     (let v_timestamps = min_length 1 (timestamps raw);
          v_values = bind_exc (min_length 1 (values' raw))
                       (validate_values_length (info_data v_timestamps))
      in field_errors ''timestamps'' v_timestamps @ field_errors ''values'' v_values)"

record load_shift_config =
  ls_max_demand_advance :: int
  ls_max_demand_delay :: int
  ls_max_hourly_purchase :: real
  ls_max_rate :: real
  ls_enforce_charge_direction :: bool
  ls_solver :: string

definition LoadShiftConfig_errors :: "load_shift_config \<Rightarrow> error_details list" where
  "LoadShiftConfig_errors raw =
       field_errors ''max_demand_advance'' (ge 0 (ls_max_demand_advance raw))
     @ field_errors ''max_demand_delay'' (ge 0 (ls_max_demand_delay raw))
     @ field_errors ''max_hourly_purchase'' (gt 0 (ls_max_hourly_purchase raw))
     @ field_errors ''max_rate'' (gt 0 (ls_max_rate raw))"

record moving_horizon_request =
  price_data :: time_series_data
  demand_data :: time_series_data
  daily_decision_hour :: int
  n_lookahead_hours :: int
  load_shift :: load_shift_config

text \<open>The errors of a nested model are reported under the name of the field that holds it.\<close>

definition nested :: "string \<Rightarrow> error_details list \<Rightarrow> error_details list" where
  "nested field errs = map (\<lambda>(loc, e). (field @ ''.'' @ loc, e)) errs"

definition MovingHorizonRequest_errors :: "moving_horizon_request \<Rightarrow> error_details list" where
  "MovingHorizonRequest_errors raw =
       nested ''price_data'' (TimeSeriesData_errors (price_data raw))
     @ nested ''demand_data'' (TimeSeriesData_errors (demand_data raw))
     @ field_errors ''daily_decision_hour''
         (bind_exc (ge 0 (daily_decision_hour raw)) (le 23))
     @ field_errors ''n_lookahead_hours'' (ge 24 (n_lookahead_hours raw))
     @ nested ''load_shift'' (LoadShiftConfig_errors (load_shift raw))"

definition MovingHorizonRequest :: "moving_horizon_request \<Rightarrow> error_details list + moving_horizon_request" where
  "MovingHorizonRequest raw =
     (if MovingHorizonRequest_errors raw = [] then Inr raw
      else Inl (MovingHorizonRequest_errors raw))"

record moving_horizon_response =
  mh_timestamps :: "string list"
  mh_original_demand :: "real list"
  mh_optimal_demand :: "real list"
  mh_shift :: "real list"
  mh_price :: "real list"
  mh_original_cost :: real
  mh_optimized_cost :: real
  mh_cost_savings :: real
  mh_cost_savings_percent :: real

section \<open>The handlers of \<^verbatim>\<open>api.py\<close>\<close>

subsection \<open>NumPy and Python arithmetic used by the handlers\<close>

text \<open>
  \<^verbatim>\<open>a * b\<close> on one-dimensional arrays: elementwise when the shapes agree, broadcast when
  one of them has length one, \<^verbatim>\<open>ValueError\<close> otherwise.
\<close>

definition np_multiply :: "real list \<Rightarrow> real list \<Rightarrow> py_exception + real list" where
  "np_multiply a b =
     (if length a = length b then Inr (map2 (*) a b)
      else if length a = 1 then Inr (map (\<lambda>y. hd a * y) b)
      else if length b = 1 then Inr (map (\<lambda>x. x * hd b) a)
      else Inl (PyExc ValueError ''operands could not be broadcast together''))"

definition np_sum :: "real list \<Rightarrow> real" where
  "np_sum a = sum_list a"

text \<open>Python's \<^verbatim>\<open>/\<close> on floats raises on a zero divisor; HOL's does not.\<close>

definition py_truediv :: "real \<Rightarrow> real \<Rightarrow> py_exception + real" where
  "py_truediv a b =
     (if b = 0 then Inl (PyExc ZeroDivisionError ''float division by zero'') else Inr (a / b))"

text \<open>
  The expression both handlers use for \<^verbatim>\<open>cost_savings_percent\<close>:
  \<^verbatim>\<open>(cost_savings / original_cost * 100) if original_cost > 0 else 0.0\<close>.
\<close>

definition savings_percent :: "real \<Rightarrow> real \<Rightarrow> py_exception + real" where
  "savings_percent savings original =
     (if original > 0 then bind_exc (py_truediv savings original) (\<lambda>q. Inr (q * 100))
      else Inr 0)"

subsection \<open>\<^verbatim>\<open>POST /api/v1/optimize\<close>\<close>

text \<open>
  The arguments \<^verbatim>\<open>optimize_demand\<close> gives to the constructor of \<^verbatim>\<open>VirtualStorage\<close>.
\<close>

record virtual_storage =
  vs_max_demand_advance :: int
  vs_max_demand_delay :: int
  vs_max_hourly_purchase :: real
  vs_max_rate :: real
  vs_enforce_charge_direction :: bool
  vs_solver :: string

text \<open>
  The result of \<^verbatim>\<open>VirtualStorage.optimize_demand\<close> is a dictionary of arrays, read by
  the handler under the keys \<^verbatim>\<open>optimal_demand\<close>, \<^verbatim>\<open>optimal_shift\<close>,
  \<^verbatim>\<open>remove_spillover\<close> and \<^verbatim>\<open>add_spillover\<close>. The engine itself,
  \<^verbatim>\<open>VirtualStorage(...).optimize_demand(price, demand, n_control_hours)\<close>, is a
  parameter of the handler.
\<close>

type_synonym result_dict = "string \<rightharpoonup> real list"

type_synonym engine =
  "virtual_storage \<Rightarrow> real list \<Rightarrow> real list \<Rightarrow> int option \<Rightarrow> py_exception + result_dict"

definition getitem :: "result_dict \<Rightarrow> string \<Rightarrow> py_exception + real list" where
  "getitem d k = (case d k of None \<Rightarrow> Inl (PyExc KeyError k) | Some v \<Rightarrow> Inr v)"

text \<open>The optimizer object the handler creates from the request.\<close>

definition VirtualStorage :: "optimization_request \<Rightarrow> virtual_storage" where
  "VirtualStorage request =
     \<lparr> vs_max_demand_advance = max_demand_advance request,
       vs_max_demand_delay = max_demand_delay request,
       vs_max_hourly_purchase = max_hourly_purchase request,
       vs_max_rate = max_rate request,
       vs_enforce_charge_direction = enforce_charge_direction request,
       vs_solver = solver request \<rparr>"

text \<open>The body of the \<^verbatim>\<open>try\<close> block, statement by statement.\<close>

definition optimize_demand_try :: "engine \<Rightarrow> optimization_request \<Rightarrow> py_exception + optimization_response" where
  "optimize_demand_try vs_optimize_demand request =
     bind_exc (vs_optimize_demand (VirtualStorage request) (price request) (demand request)
                 (n_control_hours request)) (\<lambda>result.
     bind_exc (np_multiply (price request) (demand request)) (\<lambda>price_demand.
     bind_exc (getitem result ''optimal_demand'') (\<lambda>result_optimal_demand.
     bind_exc (np_multiply (price request) result_optimal_demand) (\<lambda>price_optimal.
     let original = np_sum price_demand;
         optimized = np_sum price_optimal;
         savings = original - optimized
     in
     bind_exc (savings_percent savings original) (\<lambda>percent.
     bind_exc (getitem result ''optimal_shift'') (\<lambda>result_optimal_shift.
     Inr \<lparr> optimal_demand = result_optimal_demand,
           optimal_shift = result_optimal_shift,
           original_cost = original,
           optimized_cost = optimized,
           cost_savings = savings,
           cost_savings_percent = percent,
           remove_spillover = result ''remove_spillover'',
           add_spillover = result ''add_spillover'' \<rparr>))))))"

text \<open>The \<^verbatim>\<open>except\<close> clauses: a \<^verbatim>\<open>ValueError\<close> is a 400, anything else a 500.\<close>

definition optimize_demand :: "engine \<Rightarrow> optimization_request \<Rightarrow> api_error + optimization_response" where
  "optimize_demand vs_optimize_demand request =
     (case optimize_demand_try vs_optimize_demand request of
        Inr response \<Rightarrow> Inr response
      | Inl (PyExc cls msg) \<Rightarrow>
          if cls = ValueError
          then Inl (HTTPException 400 (''Invalid request parameters: '' @ msg))
          else Inl (HTTPException 500 (''Optimization failed: '' @ msg)))"

text \<open>
  The route: FastAPI builds the \<^verbatim>\<open>OptimizationRequest\<close> from the body and calls the
  handler only with a model that validated.
\<close>

definition post_optimize :: "engine \<Rightarrow> optimization_request \<Rightarrow> api_error + optimization_response" where
  "post_optimize vs_optimize_demand body =
     (case OptimizationRequest body of
        Inl errors \<Rightarrow> Inl (RequestValidationError errors)
      | Inr request \<Rightarrow> optimize_demand vs_optimize_demand request)"

subsection \<open>\<^verbatim>\<open>POST /api/v1/optimize/moving-horizon\<close>\<close>

text \<open>
  A parsed timestamp is an integer (pandas keeps nanoseconds since the epoch). A
  one-column data frame is the list of its rows, index first; \<^verbatim>\<open>results_df\<close> has the
  columns \<^verbatim>\<open>demand\<close> and \<^verbatim>\<open>shift\<close>. \<^verbatim>\<open>pd.to_datetime\<close> and \<^verbatim>\<open>Timestamp.isoformat\<close>
  belong to pandas and are parameters of the handler, as is \<^verbatim>\<open>moving_horizon\<close>.
\<close>

type_synonym timestamp = int

type_synonym series = "(timestamp \<times> real) list"

type_synonym results_frame = "(timestamp \<times> real \<times> real) list"

record config =
  cfg_daily_decision_hour :: int
  cfg_n_lookahead_hours :: int
  cfg_load_shift :: virtual_storage

type_synonym scheduler = "series \<Rightarrow> series \<Rightarrow> config \<Rightarrow> py_exception + results_frame"

text \<open>
  \<^verbatim>\<open>pd.DataFrame({name: values}, index=index)\<close>: a column of the index's length is
  taken as it is, a column of length one is repeated over the index, and a column of any
  other length is refused.
\<close>

definition DataFrame :: "real list \<Rightarrow> timestamp list \<Rightarrow> py_exception + series" where
  "DataFrame column index =
     (if length column = length index then Inr (zip index column)
      else if length column = 1 then Inr (zip index (replicate (length index) (hd column)))
      else Inl (PyExc ValueError ''Length of values does not match length of index''))"

text \<open>
  \<^verbatim>\<open>(a * b).sum()\<close> on two series. Equal indexes multiply row by row. Otherwise pandas
  aligns the operands on their labels (an outer join), the product is NaN where a label
  is missing on one side, and \<^verbatim>\<open>sum\<close> skips NaN: what is summed is the product of every
  pair of rows with the same label.
\<close>

definition series_mul_sum :: "series \<Rightarrow> series \<Rightarrow> real" where
  "series_mul_sum a b =
     (if map fst a = map fst b then sum_list (map2 (*) (map snd a) (map snd b))
      else (\<Sum>(t, x)\<leftarrow>a. \<Sum>(u, y)\<leftarrow>b. if t = u then x * y else 0))"

text \<open>The \<^verbatim>\<open>config\<close> dictionary the handler builds from the request.\<close>

definition config_of :: "moving_horizon_request \<Rightarrow> config" where
  "config_of request =
     \<lparr> cfg_daily_decision_hour = daily_decision_hour request,
       cfg_n_lookahead_hours = n_lookahead_hours request,
       cfg_load_shift =
         \<lparr> vs_max_demand_advance = ls_max_demand_advance (load_shift request),
           vs_max_demand_delay = ls_max_demand_delay (load_shift request),
           vs_max_hourly_purchase = ls_max_hourly_purchase (load_shift request),
           vs_max_rate = ls_max_rate (load_shift request),
           vs_enforce_charge_direction = ls_enforce_charge_direction (load_shift request),
           vs_solver = ls_solver (load_shift request) \<rparr> \<rparr>"

definition optimize_moving_horizon_try ::
  "(string list \<Rightarrow> py_exception + timestamp list) \<Rightarrow> (timestamp \<Rightarrow> string) \<Rightarrow> scheduler \<Rightarrow>
   moving_horizon_request \<Rightarrow> py_exception + moving_horizon_response" where
  "optimize_moving_horizon_try to_datetime isoformat moving_horizon request =
     bind_exc (to_datetime (timestamps (price_data request))) (\<lambda>price_index.
     bind_exc (to_datetime (timestamps (demand_data request))) (\<lambda>demand_index.
     bind_exc (DataFrame (values' (price_data request)) price_index) (\<lambda>price_df.
     bind_exc (DataFrame (values' (demand_data request)) demand_index) (\<lambda>demand_df.
     bind_exc (moving_horizon price_df demand_df (config_of request)) (\<lambda>results_df.
     let original = series_mul_sum price_df demand_df;
         optimized = series_mul_sum price_df (map (\<lambda>(t, d, s). (t, d)) results_df);
         savings = original - optimized
     in
     bind_exc (savings_percent savings original) (\<lambda>percent.
     Inr \<lparr> mh_timestamps = map (\<lambda>(t, d, s). isoformat t) results_df,
           mh_original_demand = map snd demand_df,
           mh_optimal_demand = map (\<lambda>(t, d, s). d) results_df,
           mh_shift = map (\<lambda>(t, d, s). s) results_df,
           mh_price = map snd price_df,
           mh_original_cost = original,
           mh_optimized_cost = optimized,
           mh_cost_savings = savings,
           mh_cost_savings_percent = percent \<rparr>))))))"

definition optimize_moving_horizon ::
  "(string list \<Rightarrow> py_exception + timestamp list) \<Rightarrow> (timestamp \<Rightarrow> string) \<Rightarrow> scheduler \<Rightarrow>
   moving_horizon_request \<Rightarrow> api_error + moving_horizon_response" where
  "optimize_moving_horizon to_datetime isoformat moving_horizon request =
     (case optimize_moving_horizon_try to_datetime isoformat moving_horizon request of
        Inr response \<Rightarrow> Inr response
      | Inl (PyExc cls msg) \<Rightarrow>
          if cls = ValueError
          then Inl (HTTPException 400 (''Invalid request parameters: '' @ msg))
          else if cls = KeyError
          then Inl (HTTPException 400 (''Missing required configuration key: '' @ msg))
          else Inl (HTTPException 500 (''Optimization failed: '' @ msg)))"

definition post_optimize_moving_horizon ::
  "(string list \<Rightarrow> py_exception + timestamp list) \<Rightarrow> (timestamp \<Rightarrow> string) \<Rightarrow> scheduler \<Rightarrow>
   moving_horizon_request \<Rightarrow> api_error + moving_horizon_response" where
  "post_optimize_moving_horizon to_datetime isoformat moving_horizon body =
     (case MovingHorizonRequest body of
        Inl errors \<Rightarrow> Inl (RequestValidationError errors)
      | Inr request \<Rightarrow> optimize_moving_horizon to_datetime isoformat moving_horizon request)"

text \<open>
  The case the handler is written for: the two request series carry the same timestamps,
  one for each value, and the scheduler answers on that same index.
\<close>

definition timestamp_aligned ::
  "(string list \<Rightarrow> py_exception + timestamp list) \<Rightarrow> scheduler \<Rightarrow> moving_horizon_request \<Rightarrow> bool" where
  "timestamp_aligned to_datetime moving_horizon request \<longleftrightarrow>
     (\<exists>index results_df.
        to_datetime (timestamps (price_data request)) = Inr index
      \<and> to_datetime (timestamps (demand_data request)) = Inr index
      \<and> length (values' (price_data request)) = length index
      \<and> length (values' (demand_data request)) = length index
      \<and> moving_horizon (zip index (values' (price_data request)))
           (zip index (values' (demand_data request))) (config_of request) = Inr results_df
      \<and> map fst results_df = index)"

section \<open>The transfer-matrix optimizer (specification, section 4.1)\<close>

text \<open>
  \<^verbatim>\<open>VirtualStorage.optimize_demand\<close> builds and solves the load-shifting model. Its
  module is not among the sources, so what it may return is taken from the specification:
  the definitions of this section describe the results the specification admits, as a
  relation between the inputs of the engine and the dictionary it returns. They are used
  only as an assumption about the engine parameter of the handler.
\<close>

type_synonym transfer_matrix = "nat \<Rightarrow> nat \<Rightarrow> real"

text \<open>
  Modelled from the spec: the window constraint of the missing engine. \<open>T[i,j]\<close>, the
  demand moved from slot \<open>i\<close> to slot \<open>j\<close>, exists only for
  \<open>j \<in> [i - max_advance, i + max_delay]\<close> within the series; other entries are absent
  from the model.
\<close>

definition transfer_defined :: "virtual_storage \<Rightarrow> nat \<Rightarrow> nat \<Rightarrow> nat \<Rightarrow> bool" where
  "transfer_defined vs n i j \<longleftrightarrow>
     i < n \<and> j < n \<and> int i - vs_max_demand_advance vs \<le> int j
     \<and> int j \<le> int i + vs_max_demand_delay vs"

text \<open>
  Modelled from the spec: the inflow \<open>\<Sum>\<^sub>j T[j,i]\<close> of the missing engine's model, over
  the entries that exist.
\<close>

definition inflow :: "virtual_storage \<Rightarrow> nat \<Rightarrow> transfer_matrix \<Rightarrow> nat \<Rightarrow> real" where
  "inflow vs n T i = (\<Sum>j\<leftarrow>[0..<n]. if transfer_defined vs n j i then T j i else 0)"

text \<open>
  Modelled from the spec: the outflow \<open>\<Sum>\<^sub>j T[i,j]\<close> of the missing engine's model, over
  the entries that exist.
\<close>

definition outflow :: "virtual_storage \<Rightarrow> nat \<Rightarrow> transfer_matrix \<Rightarrow> nat \<Rightarrow> real" where
  "outflow vs n T i = (\<Sum>j\<leftarrow>[0..<n]. if transfer_defined vs n i j then T i j else 0)"

text \<open>
  Modelled from the spec: the \<^verbatim>\<open>optimal_demand\<close> of the missing engine,
  \<open>optimal_demand[i] = demand[i] + \<Sum>\<^sub>j T[j,i] - \<Sum>\<^sub>j T[i,j]\<close>. Under a bounded control
  horizon slot \<open>i\<close> also loses \<open>remove_spillover[i]\<close> (energy sent past the horizon) and
  gains \<open>add_spillover[i]\<close> (energy received from outside it); without one both vectors
  are zero.
\<close>

definition shifted_demand ::
  "virtual_storage \<Rightarrow> real list \<Rightarrow> transfer_matrix \<Rightarrow> real list \<Rightarrow> real list \<Rightarrow> real list" where
  "shifted_demand vs demands T removed added =
     map (\<lambda>i. demands ! i + inflow vs (length demands) T i - outflow vs (length demands) T i
               + added ! i - removed ! i)
       [0..<length demands]"

text \<open>
  Modelled from the spec: the constraints of the missing engine's model. Spillover is
  non-negative and demand-shaped; every existing transfer lies between zero and
  \<open>max_rate\<close>; the shifted demand of every slot is non-negative and at most
  \<open>max_hourly_purchase\<close>; with \<open>enforce_charge_direction\<close> a slot receives from other
  slots or sends to other slots, never both. The specification also says that spillover
  is defined only for slots next to the horizon's boundary, without saying which; that
  restriction is left out, so every plan the specification allows is feasible here.
\<close>

definition feasible ::
  "virtual_storage \<Rightarrow> real list \<Rightarrow> transfer_matrix \<Rightarrow> real list \<Rightarrow> real list \<Rightarrow> bool" where
  "feasible vs demands T removed added \<longleftrightarrow>
     (let n = length demands; od = shifted_demand vs demands T removed added
      in length removed = n \<and> length added = n
       \<and> (\<forall>i\<in>{..<n}. 0 \<le> removed ! i \<and> 0 \<le> added ! i)
       \<and> (\<forall>i\<in>{..<n}. \<forall>j\<in>{..<n}.
             transfer_defined vs n i j \<longrightarrow> 0 \<le> T i j \<and> T i j \<le> vs_max_rate vs)
       \<and> (\<forall>i\<in>{..<n}. 0 \<le> od ! i \<and> od ! i \<le> vs_max_hourly_purchase vs)
       \<and> (vs_enforce_charge_direction vs \<longrightarrow>
            (\<forall>i\<in>{..<n}.
               (\<forall>j\<in>{..<n}. j \<noteq> i \<and> transfer_defined vs n j i \<longrightarrow> T j i = 0)
             \<or> (\<forall>j\<in>{..<n}. j \<noteq> i \<and> transfer_defined vs n i j \<longrightarrow> T i j = 0))))"

text \<open>
  Modelled from the spec: the objective of the missing engine, \<open>\<Sum>\<^sub>i price[i] * optimal_demand[i]\<close>.
\<close>

definition cost :: "real list \<Rightarrow> real list \<Rightarrow> real" where
  "cost prices od = sum_list (map2 (*) prices od)"

text \<open>
  Modelled from the spec: when the missing engine works with a bounded control horizon,
  that is when \<open>control_hours\<close> is given and smaller than the length of the series.
\<close>

definition bounded_control :: "int option \<Rightarrow> nat \<Rightarrow> bool" where
  "bounded_control control_hours n \<longleftrightarrow>
     (case control_hours of None \<Rightarrow> False | Some k \<Rightarrow> k < int n)"

text \<open>
  Modelled from the spec: the precondition of the missing engine,
  \<open>len(price) == len(demand) \<ge> 1\<close> and all constraint fields within their bounds.
\<close>

definition optimizer_precondition :: "virtual_storage \<Rightarrow> real list \<Rightarrow> real list \<Rightarrow> bool" where
  "optimizer_precondition vs prices demands \<longleftrightarrow>
     length prices = length demands \<and> 1 \<le> length prices
     \<and> 0 \<le> vs_max_demand_advance vs \<and> 0 \<le> vs_max_demand_delay vs
     \<and> 0 < vs_max_hourly_purchase vs \<and> 0 < vs_max_rate vs"

text \<open>
  Modelled from the spec: the dictionaries the missing engine may return. Without a bounded
  control horizon: the shifted demand of a feasible transfer matrix that no feasible
  transfer matrix beats on cost, its difference to the demand, and no spillover entries.
  With one: the shifted demand of a feasible plan and its two spillover vectors; that
  this plan is also cost-optimal depends on where spillover is defined and is stated
  separately, in \<open>cost_optimal_result\<close>.
\<close>

definition optimization_result ::
  "virtual_storage \<Rightarrow> real list \<Rightarrow> real list \<Rightarrow> int option \<Rightarrow> result_dict \<Rightarrow> bool" where
  "optimization_result vs prices demands control_hours result \<longleftrightarrow>
     (let zero = replicate (length demands) 0
      in if bounded_control control_hours (length demands)
         then (\<exists>T removed added.
                 feasible vs demands T removed added
               \<and> result ''optimal_demand'' = Some (shifted_demand vs demands T removed added)
               \<and> result ''optimal_shift''
                   = Some (map2 (-) (shifted_demand vs demands T removed added) demands)
               \<and> result ''remove_spillover'' = Some removed
               \<and> result ''add_spillover'' = Some added)
         else (\<exists>T. feasible vs demands T zero zero
               \<and> result ''optimal_demand'' = Some (shifted_demand vs demands T zero zero)
               \<and> result ''optimal_shift''
                   = Some (map2 (-) (shifted_demand vs demands T zero zero) demands)
               \<and> result ''remove_spillover'' = None
               \<and> result ''add_spillover'' = None
               \<and> (\<forall>T'. feasible vs demands T' zero zero \<longrightarrow>
                      cost prices (shifted_demand vs demands T zero zero)
                      \<le> cost prices (shifted_demand vs demands T' zero zero))))"

text \<open>
  Modelled from the spec: an engine meets the specification when it returns a result only
  on inputs that satisfy the precondition, and every result it returns is one the
  specification admits. It may fail on any input (\<open>Infeasible\<close>, \<open>SolverTimeout\<close>,
  \<open>SolverError\<close>, \<open>BackendUnavailable\<close>).
\<close>

definition engine_conforms :: "engine \<Rightarrow> bool" where
  "engine_conforms vs_optimize_demand \<longleftrightarrow>
     (\<forall>vs prices demands control_hours.
        case vs_optimize_demand vs prices demands control_hours of
          Inl e \<Rightarrow> True
        | Inr result \<Rightarrow>
            optimizer_precondition vs prices demands
          \<and> optimization_result vs prices demands control_hours result)"

text \<open>
  Modelled from the spec: spillover of the missing engine is defined only for the slots
  next to the horizon's boundary within reach, and is zero on every other slot. The
  specification does not say which slots these are, so the set is a parameter.
\<close>

definition spillover_within :: "nat set \<Rightarrow> real list \<Rightarrow> bool" where
  "spillover_within slots spillover \<longleftrightarrow>
     (\<forall>i\<in>{..<length spillover}. i \<in> slots \<or> spillover ! i = 0)"

text \<open>
  Modelled from the spec: the missing engine minimises \<open>\<Sum>\<^sub>i price[i] * optimal_demand[i]\<close>
  (section 4.1) and returns a feasible, cost-optimal allocation also under a bounded
  control horizon (section 9). There the result comes from a feasible plan, with
  spillover on some set of slots, that costs no more than any feasible plan with
  spillover on those slots. Without a bounded control horizon \<open>optimization_result\<close>
  says the same already.
\<close>

definition cost_optimal_result ::
  "virtual_storage \<Rightarrow> real list \<Rightarrow> real list \<Rightarrow> int option \<Rightarrow> result_dict \<Rightarrow> bool" where
  "cost_optimal_result vs prices demands control_hours result \<longleftrightarrow>
     optimization_result vs prices demands control_hours result
   \<and> (bounded_control control_hours (length demands) \<longrightarrow>
        (\<exists>T removed added remove_slots add_slots.
            feasible vs demands T removed added
          \<and> spillover_within remove_slots removed
          \<and> spillover_within add_slots added
          \<and> result ''optimal_demand'' = Some (shifted_demand vs demands T removed added)
          \<and> result ''remove_spillover'' = Some removed
          \<and> result ''add_spillover'' = Some added
          \<and> (\<forall>T' removed' added'.
                 feasible vs demands T' removed' added'
               \<and> spillover_within remove_slots removed'
               \<and> spillover_within add_slots added'
               \<longrightarrow> cost prices (shifted_demand vs demands T removed added)
                   \<le> cost prices (shifted_demand vs demands T' removed' added'))))"

text \<open>
  Modelled from the spec: an engine that returns a result only on inputs that satisfy the
  precondition, and only cost-optimal results.
\<close>

definition engine_minimises_cost :: "engine \<Rightarrow> bool" where
  "engine_minimises_cost vs_optimize_demand \<longleftrightarrow>
     (\<forall>vs prices demands control_hours.
        case vs_optimize_demand vs prices demands control_hours of
          Inl e \<Rightarrow> True
        | Inr result \<Rightarrow>
            optimizer_precondition vs prices demands
          \<and> cost_optimal_result vs prices demands control_hours result)"

section \<open>Concrete instances\<close>

text \<open>
  Small concrete requests, engines, parsers and schedulers, on which the handlers can be
  evaluated. The first request is the scenario of the specification and of
  \<^verbatim>\<open>tests/test_api.py\<close>.
\<close>

definition example_request :: optimization_request where
  "example_request =
     \<lparr> price = [30, 80, 20, 40, 35, 25], demand = [10, 15, 8, 12, 10, 9],
       max_demand_advance = 2, max_demand_delay = 3, max_hourly_purchase = 20, max_rate = 10,
       enforce_charge_direction = False, solver = ''auto'', n_control_hours = None \<rparr>"

text \<open>
  An engine that answers every call with the same dictionary.
\<close>

definition fixed_engine :: "result_dict \<Rightarrow> engine" where
  "fixed_engine result = (\<lambda>optimizer price demand n_control_hours. Inr result)"

definition example_result :: result_dict where
  "example_result =
     [''optimal_demand'' \<mapsto> [10, 5, 18, 12, 10, 9], ''optimal_shift'' \<mapsto> [0, -10, 10, 0, 0, 0]]"

definition idle_request :: optimization_request where
  "idle_request = example_request \<lparr> price := [30, 80], demand := [0, 0] \<rparr>"

definition idle_result :: result_dict where
  "idle_result = [''optimal_demand'' \<mapsto> [0, 0], ''optimal_shift'' \<mapsto> [0, 0]]"

text \<open>
  An engine that knows the answer to one problem and reports a solver error on every other.
\<close>

definition table_engine ::
  "virtual_storage \<Rightarrow> real list \<Rightarrow> real list \<Rightarrow> int option \<Rightarrow> result_dict \<Rightarrow> engine" where
  "table_engine vs0 prices0 demands0 control_hours0 result0 =
     (\<lambda>vs prices demands control_hours.
        if vs = vs0 \<and> prices = prices0 \<and> demands = demands0 \<and> control_hours = control_hours0
        then Inr result0 else Inl (PyExc OtherException ''SolverError''))"

text \<open>
  Two slots, no advance, one slot of delay, at most 2 units per slot and 1 unit per
  transfer: the only transfer that changes anything is \<open>T[0,1]\<close>.
\<close>

definition two_slot_request :: "real list \<Rightarrow> real list \<Rightarrow> optimization_request" where
  "two_slot_request prices demands =
     \<lparr> price = prices, demand = demands, max_demand_advance = 0, max_demand_delay = 1,
       max_hourly_purchase = 2, max_rate = 1, enforce_charge_direction = False,
       solver = ''auto'', n_control_hours = None \<rparr>"

definition delay_one_unit :: transfer_matrix where
  "delay_one_unit i j = (if i = 0 \<and> j = 1 then 1 else 0)"

text \<open>
  Prices \<open>[1, 2]\<close>, demand \<open>[3, 0]\<close>: the demand of slot 0 exceeds the hourly cap, so one
  unit has to move to the dearer slot 1.
\<close>

definition forced_shift_engine :: engine where
  "forced_shift_engine =
     table_engine (VirtualStorage (two_slot_request [1, 2] [3, 0])) [1, 2] [3, 0] None
       [''optimal_demand'' \<mapsto> [2, 1], ''optimal_shift'' \<mapsto> [-1, 1]]"

text \<open>
  Prices \<open>[2, 1]\<close>, demand \<open>[1, 0]\<close>: moving the unit to the cheaper slot 1 is optimal.
\<close>

definition cheap_shift_engine :: engine where
  "cheap_shift_engine =
     table_engine (VirtualStorage (two_slot_request [2, 1] [1, 0])) [2, 1] [1, 0] None
       [''optimal_demand'' \<mapsto> [0, 1], ''optimal_shift'' \<mapsto> [-1, 1]]"

text \<open>
  The same two slots with a control horizon of one slot, and an engine that sends the
  unit of slot 0 past the horizon.
\<close>

definition spill_request :: optimization_request where
  "spill_request = two_slot_request [2, 1] [1, 0] \<lparr> n_control_hours := Some 1 \<rparr>"

definition spill_engine :: engine where
  "spill_engine =
     table_engine (VirtualStorage spill_request) [2, 1] [1, 0] (Some 1)
       [''optimal_demand'' \<mapsto> [0, 0], ''optimal_shift'' \<mapsto> [-1, 0],
        ''remove_spillover'' \<mapsto> [1, 0], ''add_spillover'' \<mapsto> [0, 0]]"

text \<open>
  Two slots, one slot of advance, no delay: the only transfer that changes anything is
  \<open>T[1,0]\<close>. With prices \<open>[2, 1]\<close> and demand \<open>[-1, 1]\<close> the negative demand of slot 0
  has to be filled from slot 1.
\<close>

definition advance_request :: "real list \<Rightarrow> real list \<Rightarrow> optimization_request" where
  "advance_request prices demands =
     \<lparr> price = prices, demand = demands, max_demand_advance = 1, max_demand_delay = 0,
       max_hourly_purchase = 2, max_rate = 1, enforce_charge_direction = False,
       solver = ''auto'', n_control_hours = None \<rparr>"

definition advance_one_unit :: transfer_matrix where
  "advance_one_unit i j = (if i = 1 \<and> j = 0 then 1 else 0)"

definition negative_demand_engine :: engine where
  "negative_demand_engine =
     table_engine (VirtualStorage (advance_request [2, 1] [-1, 1])) [2, 1] [-1, 1] None
       [''optimal_demand'' \<mapsto> [0, 0], ''optimal_shift'' \<mapsto> [1, -1]]"

text \<open>
  The scenario with \<^verbatim>\<open>n_control_hours=3\<close>, and an engine that answers it with one unit
  of slot 2 sent past the horizon.
\<close>

definition control_request :: optimization_request where
  "control_request = example_request \<lparr> n_control_hours := Some 3 \<rparr>"

definition control_engine :: engine where
  "control_engine =
     table_engine (VirtualStorage control_request) [30, 80, 20, 40, 35, 25] [10, 15, 8, 12, 10, 9]
       (Some 3)
       [''optimal_demand'' \<mapsto> [10, 15, 7, 12, 10, 9], ''optimal_shift'' \<mapsto> [0, 0, -1, 0, 0, 0],
        ''remove_spillover'' \<mapsto> [0, 0, 1, 0, 0, 0], ''add_spillover'' \<mapsto> [0, 0, 0, 0, 0, 0]]"

text \<open>
  A parser and a formatter of timestamps given by a table, and a scheduler that leaves
  the demand where it is.
\<close>

definition table_to_datetime :: "(string \<times> timestamp) list \<Rightarrow> string list \<Rightarrow> py_exception + timestamp list" where
  "table_to_datetime table ts =
     (if \<forall>s \<in> set ts. map_of table s \<noteq> None then Inr (map (\<lambda>s. the (map_of table s)) ts)
      else Inl (PyExc ValueError ''Unknown datetime string format''))"

definition table_isoformat :: "(string \<times> timestamp) list \<Rightarrow> timestamp \<Rightarrow> string" where
  "table_isoformat table t = (case map_of (map (\<lambda>(s, t). (t, s)) table) t of Some s \<Rightarrow> s | None \<Rightarrow> [])"

definition example_clock :: "(string \<times> timestamp) list" where
  "example_clock = [(''2024-01-01T00:00:00'', 0), (''2024-01-01T01:00:00'', 1)]"

definition example_clock3 :: "(string \<times> timestamp) list" where
  "example_clock3 = [(''2024-01-01T00:00:00'', 0), (''2024-01-01T01:00:00'', 1),
                     (''2024-01-01T02:00:00'', 2)]"

definition unshifted :: scheduler where
  "unshifted price_df demand_df config = Inr (map (\<lambda>(t, d). (t, d, 0)) demand_df)"

definition example_mh_request :: "real list \<Rightarrow> real list \<Rightarrow> moving_horizon_request" where
  "example_mh_request p d =
     \<lparr> price_data = \<lparr> timestamps = [''2024-01-01T00:00:00'', ''2024-01-01T01:00:00''],
                      values' = p \<rparr>,
       demand_data = \<lparr> timestamps = [''2024-01-01T00:00:00'', ''2024-01-01T01:00:00''],
                       values' = d \<rparr>,
       daily_decision_hour = 12, n_lookahead_hours = 36,
       load_shift = \<lparr> ls_max_demand_advance = 2, ls_max_demand_delay = 3,
                      ls_max_hourly_purchase = 20, ls_max_rate = 10,
                      ls_enforce_charge_direction = False, ls_solver = ''auto'' \<rparr> \<rparr>"

text \<open>
  The same two timestamps on both series, in opposite order.
\<close>

definition swapped_request :: moving_horizon_request where
  "swapped_request =
     \<lparr> price_data = \<lparr> timestamps = [''2024-01-01T00:00:00'', ''2024-01-01T01:00:00''],
                      values' = [30, 35] \<rparr>,
       demand_data = \<lparr> timestamps = [''2024-01-01T01:00:00'', ''2024-01-01T00:00:00''],
                       values' = [10, 12] \<rparr>,
       daily_decision_hour = 12, n_lookahead_hours = 36,
       load_shift = \<lparr> ls_max_demand_advance = 2, ls_max_demand_delay = 3,
                      ls_max_hourly_purchase = 20, ls_max_rate = 10,
                      ls_enforce_charge_direction = False, ls_solver = ''auto'' \<rparr> \<rparr>"

text \<open>
  An answer of the engine with a single entry.
\<close>

definition short_result :: result_dict where
  "short_result = [''optimal_demand'' \<mapsto> [3], ''optimal_shift'' \<mapsto> [0]]"

text \<open>
  Three prices, two demands: each series is consistent in itself, the two do not match.
\<close>

definition mismatched_request :: moving_horizon_request where
  "mismatched_request =
     \<lparr> price_data = \<lparr> timestamps = [''2024-01-01T00:00:00'', ''2024-01-01T01:00:00'',
                                     ''2024-01-01T02:00:00''],
                      values' = [30, 30, 30] \<rparr>,
       demand_data = \<lparr> timestamps = [''2024-01-01T00:00:00'', ''2024-01-01T01:00:00''],
                       values' = [10, 10] \<rparr>,
       daily_decision_hour = 12, n_lookahead_hours = 36,
       load_shift = \<lparr> ls_max_demand_advance = 2, ls_max_demand_delay = 3,
                      ls_max_hourly_purchase = 20, ls_max_rate = 10,
                      ls_enforce_charge_direction = False, ls_solver = ''auto'' \<rparr> \<rparr>"

section \<open>Properties of request validation\<close>

lemma bind_exc_Inr_iff: "bind_exc m f = Inr y \<longleftrightarrow> (\<exists>x. m = Inr x \<and> f x = Inr y)"
  by (cases m) (simp_all add: bind_exc_def)

lemma field_errors_Nil_iff: "field_errors loc r = [] \<longleftrightarrow> (\<exists>v. r = Inr v)"
  by (cases r) (simp_all add: field_errors_def)

lemma nested_Nil_iff: "nested f errs = [] \<longleftrightarrow> errs = []"
  by (simp add: nested_def)

lemma OptimizationRequest_errors_Nil_iff:
  "OptimizationRequest_errors raw = [] \<longleftrightarrow>
     price raw \<noteq> [] \<and> length (demand raw) = length (price raw)
     \<and> 0 \<le> max_demand_advance raw \<and> 0 \<le> max_demand_delay raw
     \<and> 0 < max_hourly_purchase raw \<and> 0 < max_rate raw
     \<and> (\<forall>k. n_control_hours raw = Some k \<longrightarrow> 1 \<le> k)"
  by (cases "price raw"; cases "demand raw"; cases "n_control_hours raw")
     (auto simp add: OptimizationRequest_errors_def Let_def field_errors_def bind_exc_def
       min_length_def validate_arrays_not_empty_def validate_demand_length_def info_data_def
       ge_def gt_def)

lemmas validation_defs =
  OptimizationRequest_def OptimizationRequest_errors_def MovingHorizonRequest_def
  MovingHorizonRequest_errors_def TimeSeriesData_errors_def LoadShiftConfig_errors_def
  nested_def field_errors_def bind_exc_def min_length_def validate_arrays_not_empty_def
  validate_demand_length_def validate_values_length_def info_data_def ge_def gt_def le_def

text \<open>
  Claim C4. A body of \<^verbatim>\<open>POST /api/v1/optimize\<close> whose series differ in length, or in
  which a series is empty, or in which \<open>max_demand_advance < 0\<close>, \<open>max_demand_delay < 0\<close>,
  \<open>max_hourly_purchase \<le> 0\<close> or \<open>max_rate \<le> 0\<close>, does not validate: the route answers
  with the validation errors of the model (HTTP 422) and nothing else. The answer does
  not mention the engine, so no solve is attempted and no optimization result exists.
\<close>

theorem invalid_request_rejected:
  assumes "length (price body) \<noteq> length (demand body) \<or> price body = [] \<or> demand body = []
           \<or> max_demand_advance body < 0 \<or> max_demand_delay body < 0
           \<or> max_hourly_purchase body \<le> 0 \<or> max_rate body \<le> 0"
  shows "OptimizationRequest_errors body \<noteq> []
         \<and> post_optimize vs_optimize_demand body
             = Inl (RequestValidationError (OptimizationRequest_errors body))"
proof -
  have "OptimizationRequest_errors body \<noteq> []"
    using assms by (auto simp add: OptimizationRequest_errors_Nil_iff)
  then show ?thesis
    by (simp add: post_optimize_def OptimizationRequest_def)
qed

text \<open>
  The request of \<^verbatim>\<open>test_basic_optimization_mismatched_lengths\<close>: three prices, two
  demands.
\<close>

theorem invalid_request_rejected_witness:
  "post_optimize (\<lambda>vs p d n. Inr Map.empty)
     \<lparr> price = [30, 80, 20], demand = [10, 15], max_demand_advance = 2, max_demand_delay = 3,
       max_hourly_purchase = 20, max_rate = 10, enforce_charge_direction = False,
       solver = ''auto'', n_control_hours = None \<rparr>
   = Inl (RequestValidationError [(''demand'', value_error)])"
  using invalid_request_rejected [of
     "\<lparr> price = [30, 80, 20], demand = [10, 15], max_demand_advance = 2, max_demand_delay = 3,
       max_hourly_purchase = 20, max_rate = 10, enforce_charge_direction = False,
       solver = ''auto'', n_control_hours = None \<rparr>" "\<lambda>vs p d n. Inr Map.empty"]
  by (simp add: OptimizationRequest_errors_def field_errors_def bind_exc_def
       min_length_def validate_arrays_not_empty_def validate_demand_length_def info_data_def
       ge_def gt_def)

lemma TimeSeriesData_errors_Nil_iff:
  "TimeSeriesData_errors d = [] \<longleftrightarrow>
     timestamps d \<noteq> [] \<and> values' d \<noteq> [] \<and> length (values' d) = length (timestamps d)"
  by (cases "timestamps d"; cases "values' d")
     (auto simp add: TimeSeriesData_errors_def Let_def field_errors_def bind_exc_def
       min_length_def validate_values_length_def info_data_def)

lemma LoadShiftConfig_errors_Nil_iff:
  "LoadShiftConfig_errors c = [] \<longleftrightarrow>
     0 \<le> ls_max_demand_advance c \<and> 0 \<le> ls_max_demand_delay c
     \<and> 0 < ls_max_hourly_purchase c \<and> 0 < ls_max_rate c"
  by (auto simp add: LoadShiftConfig_errors_def field_errors_def ge_def gt_def)

lemma MovingHorizonRequest_errors_Nil_iff:
  "MovingHorizonRequest_errors body = [] \<longleftrightarrow>
     TimeSeriesData_errors (price_data body) = []
     \<and> TimeSeriesData_errors (demand_data body) = []
     \<and> 0 \<le> daily_decision_hour body \<and> daily_decision_hour body \<le> 23
     \<and> 24 \<le> n_lookahead_hours body
     \<and> LoadShiftConfig_errors (load_shift body) = []"
  by (auto simp add: MovingHorizonRequest_errors_def nested_Nil_iff field_errors_def
        bind_exc_def ge_def le_def)

text \<open>
  Claim C10. A moving-horizon request validates exactly when each of its two series is
  consistent in itself (timestamps and values non-empty and of the same length) and the
  scalar fields and the load-shift configuration are within their bounds. Nothing relates
  the two series to each other: a validated request goes to the handler whatever their
  lengths and timestamps, and there are requests with series of different lengths that
  validate.
\<close>

theorem moving_horizon_validation_is_per_series:
  "(MovingHorizonRequest body = Inr body \<longleftrightarrow>
       (timestamps (price_data body) \<noteq> [] \<and> values' (price_data body) \<noteq> []
        \<and> length (values' (price_data body)) = length (timestamps (price_data body)))
     \<and> (timestamps (demand_data body) \<noteq> [] \<and> values' (demand_data body) \<noteq> []
        \<and> length (values' (demand_data body)) = length (timestamps (demand_data body)))
     \<and> 0 \<le> daily_decision_hour body \<and> daily_decision_hour body \<le> 23
     \<and> 24 \<le> n_lookahead_hours body
     \<and> LoadShiftConfig_errors (load_shift body) = [])
   \<and> (MovingHorizonRequest body = Inr body \<longrightarrow>
        post_optimize_moving_horizon to_datetime isoformat moving_horizon body
        = optimize_moving_horizon to_datetime isoformat moving_horizon body)
   \<and> (\<exists>b. length (timestamps (price_data b)) \<noteq> length (timestamps (demand_data b))
          \<and> timestamps (price_data b) \<noteq> timestamps (demand_data b)
          \<and> MovingHorizonRequest b = Inr b)"
proof (intro conjI)
  show "MovingHorizonRequest body = Inr body \<longleftrightarrow>
       (timestamps (price_data body) \<noteq> [] \<and> values' (price_data body) \<noteq> []
        \<and> length (values' (price_data body)) = length (timestamps (price_data body)))
     \<and> (timestamps (demand_data body) \<noteq> [] \<and> values' (demand_data body) \<noteq> []
        \<and> length (values' (demand_data body)) = length (timestamps (demand_data body)))
     \<and> 0 \<le> daily_decision_hour body \<and> daily_decision_hour body \<le> 23
     \<and> 24 \<le> n_lookahead_hours body
     \<and> LoadShiftConfig_errors (load_shift body) = []"
    by (simp add: MovingHorizonRequest_def MovingHorizonRequest_errors_Nil_iff
          TimeSeriesData_errors_Nil_iff)
  show "MovingHorizonRequest body = Inr body \<longrightarrow>
        post_optimize_moving_horizon to_datetime isoformat moving_horizon body
        = optimize_moving_horizon to_datetime isoformat moving_horizon body"
    by (simp add: post_optimize_moving_horizon_def)
  let ?b = "\<lparr> price_data = \<lparr> timestamps = [''2024-01-01T00:00:00'', ''2024-01-01T01:00:00''],
                               values' = [30, 30] \<rparr>,
              demand_data = \<lparr> timestamps = [''2024-01-01T00:00:00''], values' = [10] \<rparr>,
              daily_decision_hour = 12, n_lookahead_hours = 36,
              load_shift = \<lparr> ls_max_demand_advance = 2, ls_max_demand_delay = 3,
                             ls_max_hourly_purchase = 20, ls_max_rate = 10,
                             ls_enforce_charge_direction = False, ls_solver = ''auto'' \<rparr> \<rparr>"
  have "MovingHorizonRequest ?b = Inr ?b"
    by (simp add: MovingHorizonRequest_def MovingHorizonRequest_errors_Nil_iff
          TimeSeriesData_errors_Nil_iff LoadShiftConfig_errors_Nil_iff)
  then show "\<exists>b. length (timestamps (price_data b)) \<noteq> length (timestamps (demand_data b))
          \<and> timestamps (price_data b) \<noteq> timestamps (demand_data b)
          \<and> MovingHorizonRequest b = Inr b"
    by (intro exI [of _ ?b]) simp
qed

section \<open>Properties of the handlers\<close>

lemma sum_list_map2_nth:
  assumes "length a = length b"
  shows "sum_list (map2 (*) a b) = (\<Sum>i<length a. a ! i * b ! i)"
proof -
  have "sum_list (map2 (*) a b) = (\<Sum>i = 0..<length (map2 (*) a b). map2 (*) a b ! i)"
    by (rule sum_list_sum_nth)
  also have "\<dots> = (\<Sum>i = 0..<length a. a ! i * b ! i)"
    using assms by (intro sum.cong) simp_all
  finally show ?thesis by (simp add: atLeast0LessThan)
qed

lemma savings_percent_total:
  "savings_percent savings original = Inr (if original > 0 then savings / original * 100 else 0)"
  by (simp add: savings_percent_def py_truediv_def bind_exc_def)

lemma optimize_demand_InrD:
  assumes "optimize_demand eng request = Inr response"
  obtains result od os pd po where
    "eng (VirtualStorage request) (price request) (demand request)
        (n_control_hours request) = Inr result"
    "np_multiply (price request) (demand request) = Inr pd"
    "result ''optimal_demand'' = Some od"
    "np_multiply (price request) od = Inr po"
    "result ''optimal_shift'' = Some os"
    "response = \<lparr> optimal_demand = od, optimal_shift = os,
                   original_cost = np_sum pd, optimized_cost = np_sum po,
                   cost_savings = np_sum pd - np_sum po,
                   cost_savings_percent =
                     (if np_sum pd > 0 then (np_sum pd - np_sum po) / np_sum pd * 100 else 0),
                   remove_spillover = result ''remove_spillover'',
                   add_spillover = result ''add_spillover'' \<rparr>"
proof -
  from assms have "optimize_demand_try eng request = Inr response"
    by (auto simp add: optimize_demand_def split: sum.splits py_exception.splits if_splits)
  then show thesis
    using that
    by (auto simp add: optimize_demand_try_def Let_def bind_exc_Inr_iff getitem_def
          savings_percent_total split: option.splits)
qed

lemma post_optimize_InrD:
  assumes "post_optimize eng body = Inr response"
  shows "OptimizationRequest_errors body = []" and "optimize_demand eng body = Inr response"
  using assms
  by (auto simp add: post_optimize_def OptimizationRequest_def split: if_splits)

lemma optimize_moving_horizon_InrD:
  assumes "optimize_moving_horizon td fmt mh request = Inr response"
  obtains pidx didx price_df demand_df results where
    "td (timestamps (price_data request)) = Inr pidx"
    "td (timestamps (demand_data request)) = Inr didx"
    "DataFrame (values' (price_data request)) pidx = Inr price_df"
    "DataFrame (values' (demand_data request)) didx = Inr demand_df"
    "mh price_df demand_df (config_of request) = Inr results"
    "response =
       (let original = series_mul_sum price_df demand_df;
            optimized = series_mul_sum price_df (map (\<lambda>(t, d, s). (t, d)) results)
        in \<lparr> mh_timestamps = map (\<lambda>(t, d, s). fmt t) results,
             mh_original_demand = map snd demand_df,
             mh_optimal_demand = map (\<lambda>(t, d, s). d) results,
             mh_shift = map (\<lambda>(t, d, s). s) results,
             mh_price = map snd price_df,
             mh_original_cost = original,
             mh_optimized_cost = optimized,
             mh_cost_savings = original - optimized,
             mh_cost_savings_percent =
               (if original > 0 then (original - optimized) / original * 100 else 0) \<rparr>)"
proof -
  from assms have "optimize_moving_horizon_try td fmt mh request = Inr response"
    by (auto simp add: optimize_moving_horizon_def split: sum.splits py_exception.splits if_splits)
  then show thesis
    using that
    by (auto simp add: optimize_moving_horizon_try_def Let_def bind_exc_Inr_iff
          savings_percent_total)
qed

lemma DataFrame_same_length:
  "length column = length index \<Longrightarrow> DataFrame column index = Inr (zip index column)"
  by (simp add: DataFrame_def)

lemma series_mul_sum_same_index:
  assumes "map fst a = map fst b"
  shows "series_mul_sum a b = (\<Sum>i<length a. snd (a ! i) * snd (b ! i))"
proof -
  have len: "length a = length b"
    using assms by (metis length_map)
  have "series_mul_sum a b = sum_list (map2 (*) (map snd a) (map snd b))"
    using assms by (simp add: series_mul_sum_def)
  also have "\<dots> = (\<Sum>i<length (map snd a). map snd a ! i * map snd b ! i)"
    by (rule sum_list_map2_nth) (simp add: len)
  also have "\<dots> = (\<Sum>i<length a. snd (a ! i) * snd (b ! i))"
    using len by (intro sum.cong) simp_all
  finally show ?thesis .
qed

lemmas handler_defs =
  post_optimize_def optimize_demand_def optimize_demand_try_def VirtualStorage_def
  post_optimize_moving_horizon_def optimize_moving_horizon_def optimize_moving_horizon_try_def
  config_of_def DataFrame_def series_mul_sum_def np_multiply_def np_sum_def getitem_def
  savings_percent_def py_truediv_def Let_def bind_exc_def

lemmas example_defs =
  example_request_def control_request_def two_slot_request_def fixed_engine_def example_result_def
  table_engine_def forced_shift_engine_def cheap_shift_engine_def control_engine_def

lemma mismatched_valid: "MovingHorizonRequest mismatched_request = Inr mismatched_request"
  by (simp add: mismatched_request_def validation_defs)

lemma mismatched_run:
  "optimize_moving_horizon (table_to_datetime example_clock3) (table_isoformat example_clock3)
     unshifted mismatched_request
   = Inr \<lparr> mh_timestamps = [''2024-01-01T00:00:00'', ''2024-01-01T01:00:00''],
           mh_original_demand = [10, 10], mh_optimal_demand = [10, 10], mh_shift = [0, 0],
           mh_price = [30, 30, 30], mh_original_cost = 600, mh_optimized_cost = 600,
           mh_cost_savings = 0, mh_cost_savings_percent = 0 \<rparr>"
  by (simp add: mismatched_request_def table_to_datetime_def table_isoformat_def
        example_clock3_def unshifted_def handler_defs)

text \<open>
  The mismatched request validates, reaches the handler, and is answered there: pandas
  aligns the series on their timestamps and the costs are summed over the two
  timestamps the series share.
\<close>

theorem moving_horizon_validation_is_per_series_witness:
  "MovingHorizonRequest mismatched_request = Inr mismatched_request
   \<and> length (timestamps (price_data mismatched_request)) = 3
   \<and> length (timestamps (demand_data mismatched_request)) = 2
   \<and> post_optimize_moving_horizon (table_to_datetime example_clock3)
        (table_isoformat example_clock3) unshifted mismatched_request
       = Inr \<lparr> mh_timestamps = [''2024-01-01T00:00:00'', ''2024-01-01T01:00:00''],
           mh_original_demand = [10, 10], mh_optimal_demand = [10, 10], mh_shift = [0, 0],
           mh_price = [30, 30, 30], mh_original_cost = 600, mh_optimized_cost = 600,
           mh_cost_savings = 0, mh_cost_savings_percent = 0 \<rparr>"
  using moving_horizon_validation_is_per_series [of mismatched_request
      "table_to_datetime example_clock3" "table_isoformat example_clock3" unshifted]
    mismatched_valid mismatched_run
  by (simp add: mismatched_request_def)

lemma example_run:
  "post_optimize (fixed_engine example_result) example_request
   = Inr \<lparr> optimal_demand = [10, 5, 18, 12, 10, 9], optimal_shift = [0, -10, 10, 0, 0, 0],
           original_cost = 2715, optimized_cost = 2115, cost_savings = 600,
           cost_savings_percent = 600 / 2715 * 100,
           remove_spillover = None, add_spillover = None \<rparr>"
  by (simp add: example_request_def fixed_engine_def example_result_def validation_defs handler_defs)

lemma example_mh_run:
  "post_optimize_moving_horizon (table_to_datetime example_clock) (table_isoformat example_clock)
     unshifted (example_mh_request [30, 35] [10, 12])
   = Inr \<lparr> mh_timestamps = [''2024-01-01T00:00:00'', ''2024-01-01T01:00:00''],
           mh_original_demand = [10, 12], mh_optimal_demand = [10, 12], mh_shift = [0, 0],
           mh_price = [30, 35], mh_original_cost = 720, mh_optimized_cost = 720,
           mh_cost_savings = 0, mh_cost_savings_percent = 0 \<rparr>"
  by (simp add: example_mh_request_def table_to_datetime_def table_isoformat_def
        example_clock_def unshifted_def validation_defs handler_defs)

lemma example_mh_aligned:
  "timestamp_aligned (table_to_datetime example_clock) unshifted (example_mh_request [30, 35] [10, 12])"
  unfolding timestamp_aligned_def
  by (rule exI [of _ "[0, 1]"], rule exI [of _ "[(0, 10, 0), (1, 12, 0)]"])
     (simp add: example_mh_request_def table_to_datetime_def example_clock_def unshifted_def config_of_def)

lemma swapped_valid: "MovingHorizonRequest swapped_request = Inr swapped_request"
  by (simp add: swapped_request_def validation_defs)

lemma swapped_run:
  "post_optimize_moving_horizon (table_to_datetime example_clock) (table_isoformat example_clock)
     unshifted swapped_request
   = Inr \<lparr> mh_timestamps = [''2024-01-01T01:00:00'', ''2024-01-01T00:00:00''],
           mh_original_demand = [10, 12], mh_optimal_demand = [10, 12], mh_shift = [0, 0],
           mh_price = [30, 35], mh_original_cost = 710, mh_optimized_cost = 710,
           mh_cost_savings = 0, mh_cost_savings_percent = 0 \<rparr>"
  by (simp add: swapped_request_def table_to_datetime_def table_isoformat_def
        example_clock_def unshifted_def validation_defs handler_defs)

lemma broadcast_run:
  "post_optimize (fixed_engine short_result) (two_slot_request [1, 2] [1, 1])
   = Inr \<lparr> optimal_demand = [3], optimal_shift = [0],
           original_cost = 3, optimized_cost = 9, cost_savings = -6,
           cost_savings_percent = -6 / 3 * 100,
           remove_spillover = None, add_spillover = None \<rparr>"
  by (simp add: two_slot_request_def fixed_engine_def short_result_def validation_defs handler_defs)

text \<open>
  Claim C7, as amended. A successful response of \<^verbatim>\<open>POST /api/v1/optimize\<close> carries the
  \<^verbatim>\<open>optimal_demand\<close> the engine returned, and the handler computes the costs from it:
  \<open>original_cost = \<Sum>\<^sub>i price[i] * demand[i]\<close>, \<open>optimized_cost\<close> is NumPy's sum of
  \<open>price * optimal_demand\<close>, which is \<open>\<Sum>\<^sub>i price[i] * optimal_demand[i]\<close> when the engine's
  \<^verbatim>\<open>optimal_demand\<close> has the length of the request's series, and
  \<open>cost_savings = original_cost - optimized_cost\<close>. A successful response of the
  moving-horizon route carries the demand and shift columns of the frame the scheduler
  returned, and the handler computes the costs from the request's frames and that
  column, as pandas' sums of the products aligned on timestamps; \<open>cost_savings\<close> is
  their difference. When the request's two series and the scheduler's result are on one
  index, these are \<open>\<Sum>\<^sub>i price[i] * demand[i]\<close> and \<open>\<Sum>\<^sub>i price[i] * optimal_demand[i]\<close> over the
  lists the response returns.
\<close>

theorem costs_computed_at_boundary:
  "(post_optimize eng body = Inr response \<longrightarrow>
      (\<exists>result price_optimal.
          eng (VirtualStorage body) (price body) (demand body) (n_control_hours body) = Inr result
        \<and> result ''optimal_demand'' = Some (optimal_demand response)
        \<and> np_multiply (price body) (optimal_demand response) = Inr price_optimal
        \<and> optimized_cost response = np_sum price_optimal)
      \<and> original_cost response = (\<Sum>i<length (price body). price body ! i * demand body ! i)
      \<and> cost_savings response = original_cost response - optimized_cost response
      \<and> (length (optimal_demand response) = length (price body) \<longrightarrow>
            optimized_cost response
            = (\<Sum>i<length (price body). price body ! i * optimal_demand response ! i)))
   \<and> (post_optimize_moving_horizon to_datetime isoformat moving_horizon mh_body = Inr mh_response \<longrightarrow>
      (\<exists>price_index demand_index price_df demand_df results_df.
          to_datetime (timestamps (price_data mh_body)) = Inr price_index
        \<and> to_datetime (timestamps (demand_data mh_body)) = Inr demand_index
        \<and> DataFrame (values' (price_data mh_body)) price_index = Inr price_df
        \<and> DataFrame (values' (demand_data mh_body)) demand_index = Inr demand_df
        \<and> moving_horizon price_df demand_df (config_of mh_body) = Inr results_df
        \<and> mh_optimal_demand mh_response = map (\<lambda>(t, d, s). d) results_df
        \<and> mh_shift mh_response = map (\<lambda>(t, d, s). s) results_df
        \<and> mh_original_cost mh_response = series_mul_sum price_df demand_df
        \<and> mh_optimized_cost mh_response
            = series_mul_sum price_df (map (\<lambda>(t, d, s). (t, d)) results_df))
      \<and> mh_cost_savings mh_response
          = mh_original_cost mh_response - mh_optimized_cost mh_response
      \<and> (timestamp_aligned to_datetime moving_horizon mh_body \<longrightarrow>
            length (mh_original_demand mh_response) = length (mh_price mh_response)
          \<and> length (mh_optimal_demand mh_response) = length (mh_price mh_response)
          \<and> mh_price mh_response = values' (price_data mh_body)
          \<and> mh_original_demand mh_response = values' (demand_data mh_body)
          \<and> mh_original_cost mh_response
              = (\<Sum>i<length (mh_price mh_response).
                   mh_price mh_response ! i * mh_original_demand mh_response ! i)
          \<and> mh_optimized_cost mh_response
              = (\<Sum>i<length (mh_price mh_response).
                   mh_price mh_response ! i * mh_optimal_demand mh_response ! i)))"
proof (intro conjI impI)
  assume ok: "post_optimize eng body = Inr response"
  from ok have valid: "OptimizationRequest_errors body = []"
    and handler: "optimize_demand eng body = Inr response"
    by (rule post_optimize_InrD)+
  from valid have len: "length (price body) = length (demand body)"
    by (simp add: OptimizationRequest_errors_Nil_iff)
  from handler obtain result od os pd po where
      run: "eng (VirtualStorage body) (price body) (demand body) (n_control_hours body) = Inr result"
    and pd: "np_multiply (price body) (demand body) = Inr pd"
    and od: "result ''optimal_demand'' = Some od"
    and po: "np_multiply (price body) od = Inr po"
    and os: "result ''optimal_shift'' = Some os"
    and response: "response = \<lparr> optimal_demand = od, optimal_shift = os,
                   original_cost = np_sum pd, optimized_cost = np_sum po,
                   cost_savings = np_sum pd - np_sum po,
                   cost_savings_percent =
                     (if np_sum pd > 0 then (np_sum pd - np_sum po) / np_sum pd * 100 else 0),
                   remove_spillover = result ''remove_spillover'',
                   add_spillover = result ''add_spillover'' \<rparr>"
    by (rule optimize_demand_InrD)
  show "\<exists>result price_optimal.
          eng (VirtualStorage body) (price body) (demand body) (n_control_hours body) = Inr result
        \<and> result ''optimal_demand'' = Some (optimal_demand response)
        \<and> np_multiply (price body) (optimal_demand response) = Inr price_optimal
        \<and> optimized_cost response = np_sum price_optimal"
    using run od po response by auto
  from pd len have "pd = map2 (*) (price body) (demand body)"
    by (simp add: np_multiply_def)
  then show "original_cost response = (\<Sum>i<length (price body). price body ! i * demand body ! i)"
    using response len by (simp add: np_sum_def sum_list_map2_nth)
  show "cost_savings response = original_cost response - optimized_cost response"
    using response by simp
  { assume shape: "length (optimal_demand response) = length (price body)"
    from shape response have len_od: "length (price body) = length od" by simp
    from po len_od have "po = map2 (*) (price body) od"
      by (simp add: np_multiply_def)
    then show "optimized_cost response
            = (\<Sum>i<length (price body). price body ! i * optimal_demand response ! i)"
      using response len_od by (simp add: np_sum_def sum_list_map2_nth) }
next
  assume ok: "post_optimize_moving_horizon to_datetime isoformat moving_horizon mh_body = Inr mh_response"
  from ok have handler: "optimize_moving_horizon to_datetime isoformat moving_horizon mh_body = Inr mh_response"
    by (auto simp add: post_optimize_moving_horizon_def MovingHorizonRequest_def split: if_splits)
  from handler obtain pidx didx price_df demand_df results where
      pidx: "to_datetime (timestamps (price_data mh_body)) = Inr pidx"
    and didx: "to_datetime (timestamps (demand_data mh_body)) = Inr didx"
    and pdf: "DataFrame (values' (price_data mh_body)) pidx = Inr price_df"
    and ddf: "DataFrame (values' (demand_data mh_body)) didx = Inr demand_df"
    and run: "moving_horizon price_df demand_df (config_of mh_body) = Inr results"
    and response: "mh_response =
       (let original = series_mul_sum price_df demand_df;
            optimized = series_mul_sum price_df (map (\<lambda>(t, d, s). (t, d)) results)
        in \<lparr> mh_timestamps = map (\<lambda>(t, d, s). isoformat t) results,
             mh_original_demand = map snd demand_df,
             mh_optimal_demand = map (\<lambda>(t, d, s). d) results,
             mh_shift = map (\<lambda>(t, d, s). s) results,
             mh_price = map snd price_df,
             mh_original_cost = original,
             mh_optimized_cost = optimized,
             mh_cost_savings = original - optimized,
             mh_cost_savings_percent =
               (if original > 0 then (original - optimized) / original * 100 else 0) \<rparr>)"
    by (rule optimize_moving_horizon_InrD)
  show "\<exists>price_index demand_index price_df demand_df results_df.
          to_datetime (timestamps (price_data mh_body)) = Inr price_index
        \<and> to_datetime (timestamps (demand_data mh_body)) = Inr demand_index
        \<and> DataFrame (values' (price_data mh_body)) price_index = Inr price_df
        \<and> DataFrame (values' (demand_data mh_body)) demand_index = Inr demand_df
        \<and> moving_horizon price_df demand_df (config_of mh_body) = Inr results_df
        \<and> mh_optimal_demand mh_response = map (\<lambda>(t, d, s). d) results_df
        \<and> mh_shift mh_response = map (\<lambda>(t, d, s). s) results_df
        \<and> mh_original_cost mh_response = series_mul_sum price_df demand_df
        \<and> mh_optimized_cost mh_response
            = series_mul_sum price_df (map (\<lambda>(t, d, s). (t, d)) results_df)"
    using pidx didx pdf ddf run response
    by (intro exI [of _ pidx] exI [of _ didx] exI [of _ price_df] exI [of _ demand_df]
          exI [of _ results]) (simp add: Let_def)
  show "mh_cost_savings mh_response
          = mh_original_cost mh_response - mh_optimized_cost mh_response"
    using response by (simp add: Let_def)
  assume aligned: "timestamp_aligned to_datetime moving_horizon mh_body"
  then obtain index results' where
      pidx': "to_datetime (timestamps (price_data mh_body)) = Inr index"
    and didx': "to_datetime (timestamps (demand_data mh_body)) = Inr index"
    and plen: "length (values' (price_data mh_body)) = length index"
    and dlen: "length (values' (demand_data mh_body)) = length index"
    and run': "moving_horizon (zip index (values' (price_data mh_body)))
           (zip index (values' (demand_data mh_body))) (config_of mh_body) = Inr results'"
    and ridx: "map fst results' = index"
    by (auto simp add: timestamp_aligned_def)
  let ?p = "zip index (values' (price_data mh_body))"
  let ?d = "zip index (values' (demand_data mh_body))"
  from pidx pidx' didx didx' have idx: "pidx = index" "didx = index" by simp_all
  from pdf ddf idx plen dlen have frames: "price_df = ?p" "demand_df = ?d"
    by (simp_all add: DataFrame_same_length)
  with run run' have same: "results = results'" by simp
  let ?r = "map (\<lambda>(t, d, s). (t, d)) results"
  have rlen: "length results = length index" using ridx same by (metis length_map)
  have fst_p: "map fst ?p = index" and fst_d: "map fst ?d = index"
    using plen dlen by simp_all
  have fst_r: "map fst ?r = index"
    using ridx same by (simp add: case_prod_unfold comp_def)
  have snd_p: "map snd ?p = values' (price_data mh_body)"
    and snd_d: "map snd ?d = values' (demand_data mh_body)"
    using plen dlen by simp_all
  have response': "mh_response =
        \<lparr> mh_timestamps = map (\<lambda>(t, d, s). isoformat t) results,
          mh_original_demand = values' (demand_data mh_body),
          mh_optimal_demand = map (\<lambda>(t, d, s). d) results,
          mh_shift = map (\<lambda>(t, d, s). s) results,
          mh_price = values' (price_data mh_body),
          mh_original_cost = series_mul_sum ?p ?d,
          mh_optimized_cost = series_mul_sum ?p ?r,
          mh_cost_savings = series_mul_sum ?p ?d - series_mul_sum ?p ?r,
          mh_cost_savings_percent =
            (if series_mul_sum ?p ?d > 0
             then (series_mul_sum ?p ?d - series_mul_sum ?p ?r) / series_mul_sum ?p ?d * 100
             else 0) \<rparr>"
    using response frames snd_p snd_d by (simp add: Let_def)
  have orig: "series_mul_sum ?p ?d
      = (\<Sum>i<length index. values' (price_data mh_body) ! i * values' (demand_data mh_body) ! i)"
    using series_mul_sum_same_index [of ?p ?d] fst_p fst_d plen dlen by simp
  have opt: "series_mul_sum ?p ?r
      = (\<Sum>i<length index. values' (price_data mh_body) ! i * map (\<lambda>(t, d, s). d) results ! i)"
  proof -
    have "series_mul_sum ?p ?r = (\<Sum>i<length ?p. snd (?p ! i) * snd (?r ! i))"
      by (rule series_mul_sum_same_index) (simp only: fst_p fst_r)
    also have "\<dots> = (\<Sum>i<length index. values' (price_data mh_body) ! i * map (\<lambda>(t, d, s). d) results ! i)"
      using plen rlen by (intro sum.cong) (simp_all add: case_prod_unfold)
    finally show ?thesis .
  qed
  show "length (mh_original_demand mh_response) = length (mh_price mh_response)"
    using response' plen dlen by simp
  show "length (mh_optimal_demand mh_response) = length (mh_price mh_response)"
    using response' plen rlen by simp
  show "mh_price mh_response = values' (price_data mh_body)"
    using response' by simp
  show "mh_original_demand mh_response = values' (demand_data mh_body)"
    using response' by simp
  show "mh_original_cost mh_response
          = (\<Sum>i<length (mh_price mh_response).
               mh_price mh_response ! i * mh_original_demand mh_response ! i)"
    using response' orig plen by simp
  show "mh_optimized_cost mh_response
          = (\<Sum>i<length (mh_price mh_response).
               mh_price mh_response ! i * mh_optimal_demand mh_response ! i)"
    using response' opt plen by simp
qed

text \<open>
  The scenario of the specification, \<open>original_cost = 2715\<close>, with an engine that moves
  ten units from the price spike to the next slot; and a two-slot moving-horizon request
  on one index.
\<close>

theorem costs_computed_at_boundary_witness:
  "post_optimize (fixed_engine example_result) example_request
     = Inr \<lparr> optimal_demand = [10, 5, 18, 12, 10, 9], optimal_shift = [0, -10, 10, 0, 0, 0],
           original_cost = 2715, optimized_cost = 2115, cost_savings = 600,
           cost_savings_percent = 600 / 2715 * 100,
           remove_spillover = None, add_spillover = None \<rparr>
   \<and> length [10, 5, 18, 12, 10, 9 :: real] = length (price example_request)
   \<and> (\<Sum>i<length (price example_request). price example_request ! i * demand example_request ! i) = 2715
   \<and> (\<Sum>i<length (price example_request).
         price example_request ! i * [10, 5, 18, 12, 10, 9] ! i) = 2115
   \<and> post_optimize_moving_horizon (table_to_datetime example_clock) (table_isoformat example_clock)
        unshifted (example_mh_request [30, 35] [10, 12])
       = Inr \<lparr> mh_timestamps = [''2024-01-01T00:00:00'', ''2024-01-01T01:00:00''],
           mh_original_demand = [10, 12], mh_optimal_demand = [10, 12], mh_shift = [0, 0],
           mh_price = [30, 35], mh_original_cost = 720, mh_optimized_cost = 720,
           mh_cost_savings = 0, mh_cost_savings_percent = 0 \<rparr>
   \<and> timestamp_aligned (table_to_datetime example_clock) unshifted
        (example_mh_request [30, 35] [10, 12])
   \<and> (\<Sum>i<length [30, 35 :: real]. [30, 35] ! i * [10, 12] ! i) = (720 :: real)"
  using costs_computed_at_boundary [of "fixed_engine example_result" example_request
      "\<lparr> optimal_demand = [10, 5, 18, 12, 10, 9], optimal_shift = [0, -10, 10, 0, 0, 0],
           original_cost = 2715, optimized_cost = 2115, cost_savings = 600,
           cost_savings_percent = 600 / 2715 * 100,
           remove_spillover = None, add_spillover = None \<rparr>"
      "table_to_datetime example_clock" "table_isoformat example_clock" unshifted
      "example_mh_request [30, 35] [10, 12]"
      "\<lparr> mh_timestamps = [''2024-01-01T00:00:00'', ''2024-01-01T01:00:00''],
           mh_original_demand = [10, 12], mh_optimal_demand = [10, 12], mh_shift = [0, 0],
           mh_price = [30, 35], mh_original_cost = 720, mh_optimized_cost = 720,
           mh_cost_savings = 0, mh_cost_savings_percent = 0 \<rparr>"]
    example_run example_mh_run example_mh_aligned
  by (simp add: example_request_def)

text \<open>
  Claim C7 as stated fails on requests that validate. In the first, the two series carry
  the same two timestamps in opposite order: pandas aligns the products on the
  timestamps, so the original cost is \<open>30 * 12 + 35 * 10 = 710\<close>, while
  \<open>\<Sum>\<^sub>i price[i] * demand[i] = 30 * 10 + 35 * 12 = 720\<close>; the optimized cost is 710 against the
  same 720. In the second, the engine's \<^verbatim>\<open>optimal_demand\<close> has one entry for two prices:
  NumPy broadcasts it, and the optimized cost is \<open>1 * 3 + 2 * 3 = 9\<close>.
\<close>

theorem costs_differ_from_indexed_sums:
  "MovingHorizonRequest swapped_request = Inr swapped_request
   \<and> post_optimize_moving_horizon (table_to_datetime example_clock)
        (table_isoformat example_clock) unshifted swapped_request
       = Inr \<lparr> mh_timestamps = [''2024-01-01T01:00:00'', ''2024-01-01T00:00:00''],
           mh_original_demand = [10, 12], mh_optimal_demand = [10, 12], mh_shift = [0, 0],
           mh_price = [30, 35], mh_original_cost = 710, mh_optimized_cost = 710,
           mh_cost_savings = 0, mh_cost_savings_percent = 0 \<rparr>
   \<and> (\<Sum>i<length [30, 35 :: real]. [30, 35] ! i * [10, 12] ! i) = (720 :: real)
   \<and> \<not> (\<forall>to_datetime isoformat moving_horizon mh_body mh_response.
          post_optimize_moving_horizon to_datetime isoformat moving_horizon mh_body = Inr mh_response
          \<longrightarrow> mh_original_cost mh_response
              = (\<Sum>i<length (mh_price mh_response).
                   mh_price mh_response ! i * mh_original_demand mh_response ! i)
            \<and> mh_optimized_cost mh_response
              = (\<Sum>i<length (mh_price mh_response).
                   mh_price mh_response ! i * mh_optimal_demand mh_response ! i))
   \<and> OptimizationRequest (two_slot_request [1, 2] [1, 1]) = Inr (two_slot_request [1, 2] [1, 1])
   \<and> post_optimize (fixed_engine short_result) (two_slot_request [1, 2] [1, 1])
       = Inr \<lparr> optimal_demand = [3], optimal_shift = [0],
               original_cost = 3, optimized_cost = 9, cost_savings = -6,
               cost_savings_percent = -6 / 3 * 100,
               remove_spillover = None, add_spillover = None \<rparr>
   \<and> (\<Sum>i<length [3 :: real]. [1, 2] ! i * [3] ! i) = (3 :: real)"
proof (intro conjI)
  show "MovingHorizonRequest swapped_request = Inr swapped_request"
    by (rule swapped_valid)
  show "post_optimize_moving_horizon (table_to_datetime example_clock)
        (table_isoformat example_clock) unshifted swapped_request
       = Inr \<lparr> mh_timestamps = [''2024-01-01T01:00:00'', ''2024-01-01T00:00:00''],
           mh_original_demand = [10, 12], mh_optimal_demand = [10, 12], mh_shift = [0, 0],
           mh_price = [30, 35], mh_original_cost = 710, mh_optimized_cost = 710,
           mh_cost_savings = 0, mh_cost_savings_percent = 0 \<rparr>"
    by (rule swapped_run)
  show "(\<Sum>i<length [30, 35 :: real]. [30, 35] ! i * [10, 12] ! i) = (720 :: real)"
    by (simp add: lessThan_nat_numeral lessThan_Suc)
  show "\<not> (\<forall>to_datetime isoformat moving_horizon mh_body mh_response.
          post_optimize_moving_horizon to_datetime isoformat moving_horizon mh_body = Inr mh_response
          \<longrightarrow> mh_original_cost mh_response
              = (\<Sum>i<length (mh_price mh_response).
                   mh_price mh_response ! i * mh_original_demand mh_response ! i)
            \<and> mh_optimized_cost mh_response
              = (\<Sum>i<length (mh_price mh_response).
                   mh_price mh_response ! i * mh_optimal_demand mh_response ! i))"
  proof
    assume "\<forall>to_datetime isoformat moving_horizon mh_body mh_response.
          post_optimize_moving_horizon to_datetime isoformat moving_horizon mh_body = Inr mh_response
          \<longrightarrow> mh_original_cost mh_response
              = (\<Sum>i<length (mh_price mh_response).
                   mh_price mh_response ! i * mh_original_demand mh_response ! i)
            \<and> mh_optimized_cost mh_response
              = (\<Sum>i<length (mh_price mh_response).
                   mh_price mh_response ! i * mh_optimal_demand mh_response ! i)"
    from this [rule_format, OF swapped_run] show False
      by (simp add: lessThan_nat_numeral lessThan_Suc)
  qed
  show "OptimizationRequest (two_slot_request [1, 2] [1, 1]) = Inr (two_slot_request [1, 2] [1, 1])"
    by (simp add: two_slot_request_def validation_defs)
  show "post_optimize (fixed_engine short_result) (two_slot_request [1, 2] [1, 1])
       = Inr \<lparr> optimal_demand = [3], optimal_shift = [0],
               original_cost = 3, optimized_cost = 9, cost_savings = -6,
               cost_savings_percent = -6 / 3 * 100,
               remove_spillover = None, add_spillover = None \<rparr>"
    by (rule broadcast_run)
  show "(\<Sum>i<length [3 :: real]. [1, 2] ! i * [3] ! i) = (3 :: real)"
    by simp
qed

text \<open>
  Claim C9. The expression for \<^verbatim>\<open>cost_savings_percent\<close> never raises
  \<^verbatim>\<open>ZeroDivisionError\<close>: it divides only when the original cost is positive and is
  \<open>0\<close> otherwise. So a successful response of either route whose original cost
  (for the optimize route: \<open>\<Sum>\<^sub>i price[i] * demand[i]\<close>) is not positive has
  \<^verbatim>\<open>cost_savings_percent = 0\<close>, and one whose original cost is positive has the quotient.
\<close>

theorem zero_cost_percent_guard:
  "savings_percent savings original = Inr (if 0 < original then savings / original * 100 else 0)
   \<and> (post_optimize eng body = Inr response \<longrightarrow>
        original_cost response = (\<Sum>i<length (price body). price body ! i * demand body ! i)
      \<and> (original_cost response \<le> 0 \<longrightarrow> cost_savings_percent response = 0)
      \<and> (0 < original_cost response \<longrightarrow>
           cost_savings_percent response = cost_savings response / original_cost response * 100))
   \<and> (optimize_moving_horizon to_datetime isoformat moving_horizon request = Inr mh_response \<longrightarrow>
        (mh_original_cost mh_response \<le> 0 \<longrightarrow> mh_cost_savings_percent mh_response = 0)
      \<and> (0 < mh_original_cost mh_response \<longrightarrow>
           mh_cost_savings_percent mh_response
           = mh_cost_savings mh_response / mh_original_cost mh_response * 100))"
proof (intro conjI impI)
  show "savings_percent savings original = Inr (if 0 < original then savings / original * 100 else 0)"
    by (rule savings_percent_total)
next
  assume ok: "post_optimize eng body = Inr response"
  from ok have valid: "OptimizationRequest_errors body = []"
    and handler: "optimize_demand eng body = Inr response"
    by (rule post_optimize_InrD)+
  from valid have len: "length (price body) = length (demand body)"
    by (simp add: OptimizationRequest_errors_Nil_iff)
  from handler obtain result od os pd po where
      pd: "np_multiply (price body) (demand body) = Inr pd"
    and response: "response = \<lparr> optimal_demand = od, optimal_shift = os,
                   original_cost = np_sum pd, optimized_cost = np_sum po,
                   cost_savings = np_sum pd - np_sum po,
                   cost_savings_percent =
                     (if np_sum pd > 0 then (np_sum pd - np_sum po) / np_sum pd * 100 else 0),
                   remove_spillover = result ''remove_spillover'',
                   add_spillover = result ''add_spillover'' \<rparr>"
    by (rule optimize_demand_InrD)
  from pd len have "pd = map2 (*) (price body) (demand body)"
    by (simp add: np_multiply_def)
  then show "original_cost response = (\<Sum>i<length (price body). price body ! i * demand body ! i)"
    using response len by (simp add: np_sum_def sum_list_map2_nth)
  { assume "original_cost response \<le> 0"
    then show "cost_savings_percent response = 0" using response by simp }
  { assume "0 < original_cost response"
    then show "cost_savings_percent response = cost_savings response / original_cost response * 100"
      using response by simp }
next
  assume ok: "optimize_moving_horizon to_datetime isoformat moving_horizon request = Inr mh_response"
  then obtain pidx didx price_df demand_df results where
    response: "mh_response =
       (let original = series_mul_sum price_df demand_df;
            optimized = series_mul_sum price_df (map (\<lambda>(t, d, s). (t, d)) results)
        in \<lparr> mh_timestamps = map (\<lambda>(t, d, s). isoformat t) results,
             mh_original_demand = map snd demand_df,
             mh_optimal_demand = map (\<lambda>(t, d, s). d) results,
             mh_shift = map (\<lambda>(t, d, s). s) results,
             mh_price = map snd price_df,
             mh_original_cost = original,
             mh_optimized_cost = optimized,
             mh_cost_savings = original - optimized,
             mh_cost_savings_percent =
               (if original > 0 then (original - optimized) / original * 100 else 0) \<rparr>)"
    by (rule optimize_moving_horizon_InrD)
  { assume "mh_original_cost mh_response \<le> 0"
    then show "mh_cost_savings_percent mh_response = 0"
      using response by (simp add: Let_def) }
  { assume "0 < mh_original_cost mh_response"
    then show "mh_cost_savings_percent mh_response
           = mh_cost_savings mh_response / mh_original_cost mh_response * 100"
      using response by (simp add: Let_def) }
qed

lemma idle_run:
  "post_optimize (fixed_engine idle_result) idle_request
   = Inr \<lparr> optimal_demand = [0, 0], optimal_shift = [0, 0],
           original_cost = 0, optimized_cost = 0, cost_savings = 0,
           cost_savings_percent = 0, remove_spillover = None, add_spillover = None \<rparr>"
  by (simp add: idle_request_def idle_result_def example_defs validation_defs handler_defs)

lemma idle_mh_run:
  "optimize_moving_horizon (table_to_datetime example_clock) (table_isoformat example_clock)
     unshifted (example_mh_request [30, 35] [0, 0])
   = Inr \<lparr> mh_timestamps = [''2024-01-01T00:00:00'', ''2024-01-01T01:00:00''],
           mh_original_demand = [0, 0], mh_optimal_demand = [0, 0], mh_shift = [0, 0],
           mh_price = [30, 35], mh_original_cost = 0, mh_optimized_cost = 0,
           mh_cost_savings = 0, mh_cost_savings_percent = 0 \<rparr>"
  by (simp add: example_mh_request_def table_to_datetime_def table_isoformat_def
        example_clock_def unshifted_def handler_defs)

text \<open>
  Requests with zero demand: the original cost is zero and so is the percentage.
\<close>

theorem zero_cost_percent_guard_witness:
  "savings_percent 5 0 = Inr 0
   \<and> post_optimize (fixed_engine idle_result) idle_request
       = Inr \<lparr> optimal_demand = [0, 0], optimal_shift = [0, 0],
           original_cost = 0, optimized_cost = 0, cost_savings = 0,
           cost_savings_percent = 0, remove_spillover = None, add_spillover = None \<rparr>
   \<and> (\<Sum>i<length (price idle_request). price idle_request ! i * demand idle_request ! i) = 0
   \<and> optimize_moving_horizon (table_to_datetime example_clock) (table_isoformat example_clock)
        unshifted (example_mh_request [30, 35] [0, 0])
       = Inr \<lparr> mh_timestamps = [''2024-01-01T00:00:00'', ''2024-01-01T01:00:00''],
           mh_original_demand = [0, 0], mh_optimal_demand = [0, 0], mh_shift = [0, 0],
           mh_price = [30, 35], mh_original_cost = 0, mh_optimized_cost = 0,
           mh_cost_savings = 0, mh_cost_savings_percent = 0 \<rparr>"
  using zero_cost_percent_guard [of 5 0 "fixed_engine idle_result" idle_request
      "\<lparr> optimal_demand = [0, 0], optimal_shift = [0, 0],
           original_cost = 0, optimized_cost = 0, cost_savings = 0,
           cost_savings_percent = 0, remove_spillover = None, add_spillover = None \<rparr>"
      "table_to_datetime example_clock" "table_isoformat example_clock" unshifted
      "example_mh_request [30, 35] [0, 0]"
      "\<lparr> mh_timestamps = [''2024-01-01T00:00:00'', ''2024-01-01T01:00:00''],
           mh_original_demand = [0, 0], mh_optimal_demand = [0, 0], mh_shift = [0, 0],
           mh_price = [30, 35], mh_original_cost = 0, mh_optimized_cost = 0,
           mh_cost_savings = 0, mh_cost_savings_percent = 0 \<rparr>"]
    idle_run idle_mh_run
  by (simp add: idle_request_def example_request_def)

section \<open>Properties of an engine that meets the specification\<close>

lemma table_engine_conforms:
  assumes "optimizer_precondition vs0 prices0 demands0"
    and "optimization_result vs0 prices0 demands0 control_hours0 result0"
  shows "engine_conforms (table_engine vs0 prices0 demands0 control_hours0 result0)"
  using assms by (simp add: engine_conforms_def table_engine_def)

lemma length_shifted_demand [simp]:
  "length (shifted_demand vs demands T removed added) = length demands"
  by (simp add: shifted_demand_def)

lemma nth_shifted_demand:
  "i < length demands \<Longrightarrow>
   shifted_demand vs demands T removed added ! i
   = demands ! i + inflow vs (length demands) T i - outflow vs (length demands) T i
     + added ! i - removed ! i"
  by (simp add: shifted_demand_def)

lemma sum_inflow_eq_sum_outflow:
  "(\<Sum>i<n. inflow vs n T i) = (\<Sum>i<n. outflow vs n T i)"
proof -
  have "(\<Sum>i<n. inflow vs n T i) = (\<Sum>i<n. \<Sum>j<n. if transfer_defined vs n j i then T j i else 0)"
    by (simp add: inflow_def interv_sum_list_conv_sum_set_nat atLeast0LessThan)
  also have "\<dots> = (\<Sum>j<n. \<Sum>i<n. if transfer_defined vs n j i then T j i else 0)"
    by (rule sum.swap)
  also have "\<dots> = (\<Sum>i<n. outflow vs n T i)"
    by (simp add: outflow_def interv_sum_list_conv_sum_set_nat atLeast0LessThan)
  finally show ?thesis .
qed

lemma sum_list_nth_lessThan: "sum_list xs = (\<Sum>i<length xs. xs ! i)"
  by (simp add: sum_list_sum_nth atLeast0LessThan)

text \<open>
  What leaves one slot through a transfer arrives at another: over the whole series the
  shifted demand and the spillover sent out balance the demand and the spillover received.
\<close>

lemma conservation:
  assumes "length removed = length demands" and "length added = length demands"
  shows "sum_list (shifted_demand vs demands T removed added) + sum_list removed
         = sum_list demands + sum_list added"
proof -
  let ?n = "length demands"
  have "sum_list (shifted_demand vs demands T removed added)
        = (\<Sum>i<?n. demands ! i + inflow vs ?n T i - outflow vs ?n T i + added ! i - removed ! i)"
    by (simp add: sum_list_nth_lessThan nth_shifted_demand)
  also have "\<dots> = (\<Sum>i<?n. demands ! i) + (\<Sum>i<?n. inflow vs ?n T i)
                   - (\<Sum>i<?n. outflow vs ?n T i) + (\<Sum>i<?n. added ! i) - (\<Sum>i<?n. removed ! i)"
    by (simp add: sum.distrib sum_subtractf)
  also have "\<dots> = sum_list demands + sum_list added - sum_list removed"
    using assms by (simp add: sum_inflow_eq_sum_outflow sum_list_nth_lessThan)
  finally show ?thesis by simp
qed

lemma sum_list_replicate_zero [simp]: "sum_list (replicate n (0::real)) = 0"
  by (induction n) simp_all

lemma idle_flows [simp]:
  "inflow vs n (\<lambda>i j. 0) i = 0" "outflow vs n (\<lambda>i j. 0) i = 0"
  by (simp_all add: inflow_def outflow_def)

lemma idle_shifted_demand:
  "shifted_demand vs demands (\<lambda>i j. 0) (replicate (length demands) 0) (replicate (length demands) 0)
   = demands"
  by (rule nth_equalityI) (simp_all add: nth_shifted_demand)

text \<open>
  Doing nothing is feasible when every slot's demand is within the hourly cap.
\<close>

lemma idle_feasible:
  assumes "\<forall>i<length demands. 0 \<le> demands ! i \<and> demands ! i \<le> vs_max_hourly_purchase vs"
    and "0 \<le> vs_max_rate vs"
  shows "feasible vs demands (\<lambda>i j. 0) (replicate (length demands) 0) (replicate (length demands) 0)"
  using assms by (simp add: feasible_def Let_def idle_shifted_demand)

lemma optimization_result_length:
  assumes "optimization_result vs prices demands control_hours result"
    and "result ''optimal_demand'' = Some od"
  shows "length od = length demands"
  using assms by (auto simp add: optimization_result_def Let_def split: if_splits)

lemma conforming_runD:
  assumes "engine_conforms eng" and "post_optimize eng body = Inr response"
  obtains result where
    "optimization_result (VirtualStorage body) (price body) (demand body) (n_control_hours body) result"
    "length (price body) = length (demand body)"
    "result ''optimal_demand'' = Some (optimal_demand response)"
    "remove_spillover response = result ''remove_spillover''"
    "add_spillover response = result ''add_spillover''"
    "optimized_cost response = cost (price body) (optimal_demand response)"
    "original_cost response = cost (price body) (demand body)"
    "0 < max_rate body"
proof -
  from assms(2) have valid: "OptimizationRequest_errors body = []"
    and handler: "optimize_demand eng body = Inr response"
    by (rule post_optimize_InrD)+
  from valid have len: "length (price body) = length (demand body)" and rate: "0 < max_rate body"
    by (simp_all add: OptimizationRequest_errors_Nil_iff)
  from handler obtain result od os pd po where
      run: "eng (VirtualStorage body) (price body) (demand body) (n_control_hours body) = Inr result"
    and pd: "np_multiply (price body) (demand body) = Inr pd"
    and od: "result ''optimal_demand'' = Some od"
    and po: "np_multiply (price body) od = Inr po"
    and os: "result ''optimal_shift'' = Some os"
    and response: "response = \<lparr> optimal_demand = od, optimal_shift = os,
                   original_cost = np_sum pd, optimized_cost = np_sum po,
                   cost_savings = np_sum pd - np_sum po,
                   cost_savings_percent =
                     (if np_sum pd > 0 then (np_sum pd - np_sum po) / np_sum pd * 100 else 0),
                   remove_spillover = result ''remove_spillover'',
                   add_spillover = result ''add_spillover'' \<rparr>"
    by (rule optimize_demand_InrD)
  from assms(1) run
  have res: "optimization_result (VirtualStorage body) (price body) (demand body) (n_control_hours body) result"
    unfolding engine_conforms_def
    by (metis (mono_tags, lifting) sum.simps(6))
  from res od have "length od = length (demand body)"
    by (rule optimization_result_length)
  with po response len
  have "optimized_cost response = cost (price body) (optimal_demand response)"
    by (simp add: np_multiply_def cost_def np_sum_def)
  moreover have "original_cost response = cost (price body) (demand body)"
    using pd response len by (simp add: np_multiply_def cost_def np_sum_def)
  ultimately show thesis
    using that res len od response rate by simp
qed

lemma two_slot_defined:
  "transfer_defined (VirtualStorage (two_slot_request p d)) n i j \<longleftrightarrow>
     i < n \<and> j < n \<and> (j = i \<or> j = Suc i)"
  by (auto simp add: transfer_defined_def VirtualStorage_def two_slot_request_def)

lemma two_slot_shifted:
  "shifted_demand (VirtualStorage (two_slot_request p [d0, d1])) [d0, d1] T [0, 0] [0, 0]
   = [d0 - T 0 1, d1 + T 0 1]"
  by (simp add: shifted_demand_def inflow_def outflow_def two_slot_defined upt_rec)

lemma two_slot_feasible:
  "feasible (VirtualStorage (two_slot_request p [d0, d1])) [d0, d1] T [0, 0] [0, 0] \<longleftrightarrow>
     0 \<le> T 0 0 \<and> T 0 0 \<le> 1 \<and> 0 \<le> T 0 1 \<and> T 0 1 \<le> 1 \<and> 0 \<le> T 1 1 \<and> T 1 1 \<le> 1
     \<and> 0 \<le> d0 - T 0 1 \<and> d0 - T 0 1 \<le> 2 \<and> 0 \<le> d1 + T 0 1 \<and> d1 + T 0 1 \<le> 2"
proof -
  have vs: "vs_max_rate (VirtualStorage (two_slot_request p [d0, d1])) = 1"
    "vs_max_hourly_purchase (VirtualStorage (two_slot_request p [d0, d1])) = 2"
    "\<not> vs_enforce_charge_direction (VirtualStorage (two_slot_request p [d0, d1]))"
    by (simp_all add: VirtualStorage_def two_slot_request_def)
  show ?thesis
    unfolding feasible_def Let_def two_slot_shifted
    by (auto simp add: two_slot_defined vs lessThan_Suc less_Suc_eq)
qed

lemma two_slot_precondition:
  "optimizer_precondition (VirtualStorage (two_slot_request p d)) [p0, p1] [d0, d1]"
  by (simp add: optimizer_precondition_def VirtualStorage_def two_slot_request_def)

lemma forced_shift_result:
  "optimization_result (VirtualStorage (two_slot_request [1, 2] [3, 0])) [1, 2] [3, 0] None
     [''optimal_demand'' \<mapsto> [2, 1], ''optimal_shift'' \<mapsto> [-1, 1]]"
proof -
  have "feasible (VirtualStorage (two_slot_request [1, 2] [3, 0])) [3, 0] delay_one_unit [0, 0] [0, 0]"
    by (simp add: two_slot_feasible delay_one_unit_def)
  moreover have "shifted_demand (VirtualStorage (two_slot_request [1, 2] [3, 0])) [3, 0]
      delay_one_unit [0, 0] [0, 0] = [2, 1]"
    by (simp add: two_slot_shifted delay_one_unit_def)
  moreover have "cost [1, 2] [2, 1]
      \<le> cost [1, 2] (shifted_demand (VirtualStorage (two_slot_request [1, 2] [3, 0])) [3, 0] T' [0, 0] [0, 0])"
    if "feasible (VirtualStorage (two_slot_request [1, 2] [3, 0])) [3, 0] T' [0, 0] [0, 0]" for T'
    using that by (simp add: two_slot_feasible two_slot_shifted cost_def)
  ultimately show ?thesis
    unfolding optimization_result_def bounded_control_def Let_def
    by (auto simp add: numeral_2_eq_2 intro!: exI [of _ delay_one_unit])
qed

lemma cheap_shift_result:
  "optimization_result (VirtualStorage (two_slot_request [2, 1] [1, 0])) [2, 1] [1, 0] None
     [''optimal_demand'' \<mapsto> [0, 1], ''optimal_shift'' \<mapsto> [-1, 1]]"
proof -
  have "feasible (VirtualStorage (two_slot_request [2, 1] [1, 0])) [1, 0] delay_one_unit [0, 0] [0, 0]"
    by (simp add: two_slot_feasible delay_one_unit_def)
  moreover have "shifted_demand (VirtualStorage (two_slot_request [2, 1] [1, 0])) [1, 0]
      delay_one_unit [0, 0] [0, 0] = [0, 1]"
    by (simp add: two_slot_shifted delay_one_unit_def)
  moreover have "cost [2, 1] [0, 1]
      \<le> cost [2, 1] (shifted_demand (VirtualStorage (two_slot_request [2, 1] [1, 0])) [1, 0] T' [0, 0] [0, 0])"
    if "feasible (VirtualStorage (two_slot_request [2, 1] [1, 0])) [1, 0] T' [0, 0] [0, 0]" for T'
    using that by (simp add: two_slot_feasible two_slot_shifted cost_def)
  ultimately show ?thesis
    unfolding optimization_result_def bounded_control_def Let_def
    by (auto simp add: numeral_2_eq_2 intro!: exI [of _ delay_one_unit])
qed

lemma control_result:
  "optimization_result (VirtualStorage control_request) [30, 80, 20, 40, 35, 25]
     [10, 15, 8, 12, 10, 9] (Some 3)
     [''optimal_demand'' \<mapsto> [10, 15, 7, 12, 10, 9], ''optimal_shift'' \<mapsto> [0, 0, -1, 0, 0, 0],
      ''remove_spillover'' \<mapsto> [0, 0, 1, 0, 0, 0], ''add_spillover'' \<mapsto> [0, 0, 0, 0, 0, 0]]"
proof -
  let ?vs = "VirtualStorage control_request"
  let ?d = "[10, 15, 8, 12, 10, 9] :: real list"
  let ?rem = "[0, 0, 1, 0, 0, 0] :: real list"
  let ?add = "[0, 0, 0, 0, 0, 0] :: real list"
  have od: "shifted_demand ?vs ?d (\<lambda>i j. 0) ?rem ?add = [10, 15, 7, 12, 10, 9]"
    by (simp add: shifted_demand_def upt_rec)
  have vs: "vs_max_rate ?vs = 10" "vs_max_hourly_purchase ?vs = 20"
    "\<not> vs_enforce_charge_direction ?vs"
    by (simp_all add: VirtualStorage_def control_request_def example_request_def)
  have "feasible ?vs ?d (\<lambda>i j. 0) ?rem ?add"
    unfolding feasible_def Let_def od
    by (simp add: vs lessThan_nat_numeral lessThan_Suc)
  then show ?thesis
    unfolding optimization_result_def bounded_control_def Let_def
    by (auto simp add: od intro!: exI [of _ "\<lambda>i j. 0"])
qed

lemma cheap_shift_engine_conforms: "engine_conforms cheap_shift_engine"
  unfolding cheap_shift_engine_def
  by (rule table_engine_conforms [OF two_slot_precondition cheap_shift_result])

lemma control_engine_conforms: "engine_conforms control_engine"
  unfolding control_engine_def
  by (rule table_engine_conforms [OF _ control_result])
     (simp add: optimizer_precondition_def VirtualStorage_def control_request_def example_request_def)

lemma forced_shift_run:
  "post_optimize forced_shift_engine (two_slot_request [1, 2] [3, 0])
   = Inr \<lparr> optimal_demand = [2, 1], optimal_shift = [-1, 1],
           original_cost = 3, optimized_cost = 4, cost_savings = -1,
           cost_savings_percent = -1 / 3 * 100,
           remove_spillover = None, add_spillover = None \<rparr>"
  by (simp add: example_defs validation_defs handler_defs)

lemma cheap_shift_run:
  "post_optimize cheap_shift_engine (two_slot_request [2, 1] [1, 0])
   = Inr \<lparr> optimal_demand = [0, 1], optimal_shift = [-1, 1],
           original_cost = 2, optimized_cost = 1, cost_savings = 1,
           cost_savings_percent = 1 / 2 * 100,
           remove_spillover = None, add_spillover = None \<rparr>"
  by (simp add: example_defs validation_defs handler_defs)

lemma control_run:
  "post_optimize control_engine control_request
   = Inr \<lparr> optimal_demand = [10, 15, 7, 12, 10, 9], optimal_shift = [0, 0, -1, 0, 0, 0],
           original_cost = 2715, optimized_cost = 2695, cost_savings = 20,
           cost_savings_percent = 20 / 2715 * 100,
           remove_spillover = Some [0, 0, 1, 0, 0, 0],
           add_spillover = Some [0, 0, 0, 0, 0, 0] \<rparr>"
  by (simp add: example_defs validation_defs handler_defs)

text \<open>
  Claim C2. For a successful response of \<^verbatim>\<open>POST /api/v1/optimize\<close>, computed by an
  engine that meets the specification: when \<^verbatim>\<open>n_control_hours\<close> is unset or at least the
  length of the series, \<open>\<Sum> optimal_demand = \<Sum> demand\<close>; when it is smaller, both
  spillover vectors are present and
  \<open>\<Sum> optimal_demand + \<Sum> remove_spillover = \<Sum> demand + \<Sum> add_spillover\<close>.
\<close>

theorem energy_conserved:
  assumes "engine_conforms eng"
    and "post_optimize eng body = Inr response"
  shows "(\<not> bounded_control (n_control_hours body) (length (demand body)) \<longrightarrow>
            sum_list (optimal_demand response) = sum_list (demand body))
       \<and> (bounded_control (n_control_hours body) (length (demand body)) \<longrightarrow>
            (\<exists>removed added.
                remove_spillover response = Some removed
              \<and> add_spillover response = Some added
              \<and> sum_list (optimal_demand response) + sum_list removed
                  = sum_list (demand body) + sum_list added))"
proof -
  let ?vs = "VirtualStorage body"
  let ?zero = "replicate (length (demand body)) (0::real)"
  from assms obtain result where
      res: "optimization_result ?vs (price body) (demand body) (n_control_hours body) result"
    and "length (price body) = length (demand body)"
    and od: "result ''optimal_demand'' = Some (optimal_demand response)"
    and rem: "remove_spillover response = result ''remove_spillover''"
    and add: "add_spillover response = result ''add_spillover''"
    and "optimized_cost response = cost (price body) (optimal_demand response)"
    and "original_cost response = cost (price body) (demand body)"
    and "0 < max_rate body"
    by (rule conforming_runD)
  show ?thesis
  proof (intro conjI impI)
    assume "\<not> bounded_control (n_control_hours body) (length (demand body))"
    with res od obtain T where
      "optimal_demand response = shifted_demand ?vs (demand body) T ?zero ?zero"
      by (auto simp add: optimization_result_def Let_def)
    then show "sum_list (optimal_demand response) = sum_list (demand body)"
      using conservation [of ?zero "demand body" ?zero ?vs T] by simp
  next
    assume "bounded_control (n_control_hours body) (length (demand body))"
    with res od obtain T removed added where
        feas: "feasible ?vs (demand body) T removed added"
      and shape: "optimal_demand response = shifted_demand ?vs (demand body) T removed added"
      and spill: "result ''remove_spillover'' = Some removed" "result ''add_spillover'' = Some added"
      by (auto simp add: optimization_result_def Let_def)
    from feas have "length removed = length (demand body)" "length added = length (demand body)"
      by (simp_all add: feasible_def Let_def)
    then have "sum_list (optimal_demand response) + sum_list removed
        = sum_list (demand body) + sum_list added"
      unfolding shape by (rule conservation)
    with spill rem add
    show "\<exists>removed added.
                remove_spillover response = Some removed
              \<and> add_spillover response = Some added
              \<and> sum_list (optimal_demand response) + sum_list removed
                  = sum_list (demand body) + sum_list added"
      by auto
  qed
qed

text \<open>
  Both cases: the two-slot problem without a control horizon, and the scenario with
  \<^verbatim>\<open>n_control_hours=3\<close>, where \<open>63 + 1 = 64 + 0\<close>.
\<close>

theorem energy_conserved_witness:
  "engine_conforms cheap_shift_engine
   \<and> post_optimize cheap_shift_engine (two_slot_request [2, 1] [1, 0])
       = Inr \<lparr> optimal_demand = [0, 1], optimal_shift = [-1, 1],
               original_cost = 2, optimized_cost = 1, cost_savings = 1,
               cost_savings_percent = 1 / 2 * 100,
               remove_spillover = None, add_spillover = None \<rparr>
   \<and> \<not> bounded_control None 2
   \<and> sum_list [0, 1 :: real] = sum_list [1, 0]
   \<and> engine_conforms control_engine
   \<and> post_optimize control_engine control_request
       = Inr \<lparr> optimal_demand = [10, 15, 7, 12, 10, 9], optimal_shift = [0, 0, -1, 0, 0, 0],
               original_cost = 2715, optimized_cost = 2695, cost_savings = 20,
               cost_savings_percent = 20 / 2715 * 100,
               remove_spillover = Some [0, 0, 1, 0, 0, 0],
               add_spillover = Some [0, 0, 0, 0, 0, 0] \<rparr>
   \<and> bounded_control (Some 3) 6
   \<and> sum_list [10, 15, 7, 12, 10, 9 :: real] + sum_list [0, 0, 1, 0, 0, 0]
       = sum_list [10, 15, 8, 12, 10, 9] + sum_list [0, 0, 0, 0, 0, 0]"
  using energy_conserved [OF cheap_shift_engine_conforms cheap_shift_run]
    energy_conserved [OF control_engine_conforms control_run]
    cheap_shift_engine_conforms cheap_shift_run control_engine_conforms control_run
  by (simp add: bounded_control_def)

text \<open>
  Claim C6. The handler copies \<^verbatim>\<open>remove_spillover\<close> and \<^verbatim>\<open>add_spillover\<close> into the
  response exactly when the engine's result has them. With an engine that meets the
  specification, each of the two fields of a successful response is non-null exactly when
  the request supplied a bounded \<^verbatim>\<open>n_control_hours\<close> (one smaller than the length of
  the series); in particular both are null when \<^verbatim>\<open>n_control_hours\<close> is unset.
\<close>

theorem spillover_iff_bounded_control:
  assumes "engine_conforms eng"
    and "post_optimize eng body = Inr response"
  shows "(\<exists>result. eng (VirtualStorage body) (price body) (demand body) (n_control_hours body)
                      = Inr result
                  \<and> remove_spillover response = result ''remove_spillover''
                  \<and> add_spillover response = result ''add_spillover'')
       \<and> (remove_spillover response \<noteq> None
            \<longleftrightarrow> bounded_control (n_control_hours body) (length (demand body)))
       \<and> (add_spillover response \<noteq> None
            \<longleftrightarrow> bounded_control (n_control_hours body) (length (demand body)))
       \<and> (n_control_hours body = None \<longrightarrow>
            remove_spillover response = None \<and> add_spillover response = None)"
proof -
  from assms(2) have handler: "optimize_demand eng body = Inr response"
    by (rule post_optimize_InrD)
  from assms obtain result where
      res: "optimization_result (VirtualStorage body) (price body) (demand body)
              (n_control_hours body) result"
    and "length (price body) = length (demand body)"
    and "result ''optimal_demand'' = Some (optimal_demand response)"
    and rem: "remove_spillover response = result ''remove_spillover''"
    and add: "add_spillover response = result ''add_spillover''"
    and "optimized_cost response = cost (price body) (optimal_demand response)"
    and "original_cost response = cost (price body) (demand body)"
    and "0 < max_rate body"
    by (rule conforming_runD)
  have keys: "(result ''remove_spillover'' \<noteq> None
                \<longleftrightarrow> bounded_control (n_control_hours body) (length (demand body)))
            \<and> (result ''add_spillover'' \<noteq> None
                \<longleftrightarrow> bounded_control (n_control_hours body) (length (demand body)))"
    using res by (auto simp add: optimization_result_def Let_def split: if_splits)
  have unset: "n_control_hours body = None \<Longrightarrow>
      \<not> bounded_control (n_control_hours body) (length (demand body))"
    by (simp add: bounded_control_def)
  from handler have "\<exists>result. eng (VirtualStorage body) (price body) (demand body) (n_control_hours body)
                      = Inr result
                  \<and> remove_spillover response = result ''remove_spillover''
                  \<and> add_spillover response = result ''add_spillover''"
    by (elim optimize_demand_InrD) auto
  then show ?thesis
    using keys unset rem add by auto
qed

text \<open>
  The scenario with \<^verbatim>\<open>n_control_hours=3\<close> populates both vectors; the two-slot problem
  without a control horizon populates neither.
\<close>

theorem spillover_iff_bounded_control_witness:
  "engine_conforms control_engine
   \<and> n_control_hours control_request = Some 3
   \<and> price control_request = [30, 80, 20, 40, 35, 25]
   \<and> demand control_request = [10, 15, 8, 12, 10, 9]
   \<and> bounded_control (n_control_hours control_request) (length (demand control_request))
   \<and> post_optimize control_engine control_request
       = Inr \<lparr> optimal_demand = [10, 15, 7, 12, 10, 9], optimal_shift = [0, 0, -1, 0, 0, 0],
               original_cost = 2715, optimized_cost = 2695, cost_savings = 20,
               cost_savings_percent = 20 / 2715 * 100,
               remove_spillover = Some [0, 0, 1, 0, 0, 0],
               add_spillover = Some [0, 0, 0, 0, 0, 0] \<rparr>
   \<and> engine_conforms cheap_shift_engine
   \<and> n_control_hours (two_slot_request [2, 1] [1, 0]) = None
   \<and> post_optimize cheap_shift_engine (two_slot_request [2, 1] [1, 0])
       = Inr \<lparr> optimal_demand = [0, 1], optimal_shift = [-1, 1],
               original_cost = 2, optimized_cost = 1, cost_savings = 1,
               cost_savings_percent = 1 / 2 * 100,
               remove_spillover = None, add_spillover = None \<rparr>"
  using spillover_iff_bounded_control [OF control_engine_conforms control_run]
    spillover_iff_bounded_control [OF cheap_shift_engine_conforms cheap_shift_run]
    cheap_shift_engine_conforms cheap_shift_run control_engine_conforms control_run
  by (simp add: bounded_control_def control_request_def example_request_def two_slot_request_def)

lemmas instance_defs =
  spill_request_def spill_engine_def advance_request_def negative_demand_engine_def

lemma engine_minimises_cost_conforms:
  "engine_minimises_cost eng \<Longrightarrow> engine_conforms eng"
  unfolding engine_minimises_cost_def engine_conforms_def cost_optimal_result_def
  by (auto split: sum.splits)

lemma table_engine_minimises_cost:
  assumes "optimizer_precondition vs0 prices0 demands0"
    and "cost_optimal_result vs0 prices0 demands0 control_hours0 result0"
  shows "engine_minimises_cost (table_engine vs0 prices0 demands0 control_hours0 result0)"
  using assms by (simp add: engine_minimises_cost_def table_engine_def)

lemma cost_optimal_result_unbounded:
  assumes "optimization_result vs prices demands control_hours result"
    and "\<not> bounded_control control_hours (length demands)"
  shows "cost_optimal_result vs prices demands control_hours result"
  using assms by (simp add: cost_optimal_result_def)

lemma spillover_within_zero [simp]: "spillover_within slots (replicate n 0)"
  by (simp add: spillover_within_def)

lemma cost_nonneg:
  assumes "\<forall>i\<in>{..<length od}. 0 \<le> od ! i" and "\<forall>p\<in>set prices. 0 \<le> p"
  shows "0 \<le> cost prices od"
proof -
  have "0 \<le> x" if "x \<in> set (map2 (*) prices od)" for x
  proof -
    from that obtain p v where pv: "(p, v) \<in> set (zip prices od)" and x: "x = p * v"
      by auto
    from pv have "p \<in> set prices" and "v \<in> set od"
      by (auto dest: set_zip_leftD set_zip_rightD)
    with assms have "0 \<le> p" and "0 \<le> v"
      by (auto simp add: in_set_conv_nth)
    with x show ?thesis by simp
  qed
  then show ?thesis
    unfolding cost_def by (rule sum_list_nonneg)
qed

lemma feasible_nonneg:
  "feasible vs demands T removed added \<Longrightarrow>
   \<forall>i\<in>{..<length (shifted_demand vs demands T removed added)}.
     0 \<le> shifted_demand vs demands T removed added ! i"
  by (simp add: feasible_def Let_def)

lemma minimising_runD:
  assumes "engine_minimises_cost eng" and "post_optimize eng body = Inr response"
  obtains result where
    "cost_optimal_result (VirtualStorage body) (price body) (demand body) (n_control_hours body) result"
    "result ''optimal_demand'' = Some (optimal_demand response)"
    "optimized_cost response = cost (price body) (optimal_demand response)"
    "original_cost response = cost (price body) (demand body)"
    "0 < max_rate body"
proof -
  from assms(2) have valid: "OptimizationRequest_errors body = []"
    and handler: "optimize_demand eng body = Inr response"
    by (rule post_optimize_InrD)+
  from valid have len: "length (price body) = length (demand body)" and rate: "0 < max_rate body"
    by (simp_all add: OptimizationRequest_errors_Nil_iff)
  from handler obtain result od os pd po where
      run: "eng (VirtualStorage body) (price body) (demand body) (n_control_hours body) = Inr result"
    and pd: "np_multiply (price body) (demand body) = Inr pd"
    and od: "result ''optimal_demand'' = Some od"
    and po: "np_multiply (price body) od = Inr po"
    and os: "result ''optimal_shift'' = Some os"
    and response: "response = \<lparr> optimal_demand = od, optimal_shift = os,
                   original_cost = np_sum pd, optimized_cost = np_sum po,
                   cost_savings = np_sum pd - np_sum po,
                   cost_savings_percent =
                     (if np_sum pd > 0 then (np_sum pd - np_sum po) / np_sum pd * 100 else 0),
                   remove_spillover = result ''remove_spillover'',
                   add_spillover = result ''add_spillover'' \<rparr>"
    by (rule optimize_demand_InrD)
  from assms(1) run
  have res: "cost_optimal_result (VirtualStorage body) (price body) (demand body) (n_control_hours body) result"
    unfolding engine_minimises_cost_def
    by (metis (mono_tags, lifting) sum.simps(6))
  then have "optimization_result (VirtualStorage body) (price body) (demand body) (n_control_hours body) result"
    by (simp add: cost_optimal_result_def)
  from this od have "length od = length (demand body)"
    by (rule optimization_result_length)
  with po response len
  have "optimized_cost response = cost (price body) (optimal_demand response)"
    by (simp add: np_multiply_def cost_def np_sum_def)
  moreover have "original_cost response = cost (price body) (demand body)"
    using pd response len by (simp add: np_multiply_def cost_def np_sum_def)
  ultimately show thesis
    using that res od response rate by simp
qed

lemma forced_shift_engine_minimises: "engine_minimises_cost forced_shift_engine"
  unfolding forced_shift_engine_def
  by (rule table_engine_minimises_cost [OF two_slot_precondition])
     (rule cost_optimal_result_unbounded [OF forced_shift_result], simp add: bounded_control_def)

lemma cheap_shift_engine_minimises: "engine_minimises_cost cheap_shift_engine"
  unfolding cheap_shift_engine_def
  by (rule table_engine_minimises_cost [OF two_slot_precondition])
     (rule cost_optimal_result_unbounded [OF cheap_shift_result], simp add: bounded_control_def)

lemma spill_result:
  "cost_optimal_result (VirtualStorage spill_request) [2, 1] [1, 0] (Some 1)
     [''optimal_demand'' \<mapsto> [0, 0], ''optimal_shift'' \<mapsto> [-1, 0],
      ''remove_spillover'' \<mapsto> [1, 0], ''add_spillover'' \<mapsto> [0, 0]]"
proof -
  let ?vs = "VirtualStorage spill_request"
  let ?idle = "\<lambda>(i::nat) (j::nat). 0::real"
  have od: "shifted_demand ?vs [1, 0] ?idle [1, 0] [0, 0] = [0, 0]"
    by (simp add: shifted_demand_def upt_rec)
  have vs: "vs_max_rate ?vs = 1" "vs_max_hourly_purchase ?vs = 2"
    "\<not> vs_enforce_charge_direction ?vs"
    by (simp_all add: VirtualStorage_def spill_request_def two_slot_request_def)
  have feas: "feasible ?vs [1, 0] ?idle [1, 0] [0, 0]"
    unfolding feasible_def Let_def od
    by (simp add: vs lessThan_nat_numeral lessThan_Suc)
  have within: "spillover_within {0} [1, 0]" "spillover_within {} [0, 0]"
    by (simp_all add: spillover_within_def lessThan_nat_numeral lessThan_Suc)
  have best: "cost [2, 1] (shifted_demand ?vs [1, 0] ?idle [1, 0] [0, 0])
      \<le> cost [2, 1] (shifted_demand ?vs [1, 0] T' removed' added')"
    if "feasible ?vs [1, 0] T' removed' added'" for T' removed' added'
  proof -
    have "0 \<le> cost [2, 1] (shifted_demand ?vs [1, 0] T' removed' added')"
      by (rule cost_nonneg [OF feasible_nonneg [OF that]]) simp
    then show ?thesis by (simp add: od cost_def)
  qed
  have shape: "optimization_result ?vs [2, 1] [1, 0] (Some 1)
     [''optimal_demand'' \<mapsto> [0, 0], ''optimal_shift'' \<mapsto> [-1, 0],
      ''remove_spillover'' \<mapsto> [1, 0], ''add_spillover'' \<mapsto> [0, 0]]"
    unfolding optimization_result_def bounded_control_def Let_def
    using feas by (auto simp add: od intro!: exI [of _ ?idle])
  show ?thesis
    unfolding cost_optimal_result_def
  proof (intro conjI impI)
    show "optimization_result ?vs [2, 1] [1, 0] (Some 1)
     [''optimal_demand'' \<mapsto> [0, 0], ''optimal_shift'' \<mapsto> [-1, 0],
      ''remove_spillover'' \<mapsto> [1, 0], ''add_spillover'' \<mapsto> [0, 0]]"
      by (rule shape)
    show "\<exists>T removed added remove_slots add_slots.
            feasible ?vs [1, 0] T removed added
          \<and> spillover_within remove_slots removed
          \<and> spillover_within add_slots added
          \<and> [''optimal_demand'' \<mapsto> [0, 0], ''optimal_shift'' \<mapsto> [-1, 0],
              ''remove_spillover'' \<mapsto> [1, 0], ''add_spillover'' \<mapsto> [0, 0]] ''optimal_demand''
              = Some (shifted_demand ?vs [1, 0] T removed added)
          \<and> [''optimal_demand'' \<mapsto> [0, 0], ''optimal_shift'' \<mapsto> [-1, 0],
              ''remove_spillover'' \<mapsto> [1, 0], ''add_spillover'' \<mapsto> [0, 0]] ''remove_spillover''
              = Some removed
          \<and> [''optimal_demand'' \<mapsto> [0, 0], ''optimal_shift'' \<mapsto> [-1, 0],
              ''remove_spillover'' \<mapsto> [1, 0], ''add_spillover'' \<mapsto> [0, 0]] ''add_spillover''
              = Some added
          \<and> (\<forall>T' removed' added'.
                 feasible ?vs [1, 0] T' removed' added'
               \<and> spillover_within remove_slots removed'
               \<and> spillover_within add_slots added'
               \<longrightarrow> cost [2, 1] (shifted_demand ?vs [1, 0] T removed added)
                   \<le> cost [2, 1] (shifted_demand ?vs [1, 0] T' removed' added'))"
      using feas within best
      by (intro exI [of _ ?idle] exI [of _ "[1, 0]"] exI [of _ "[0, 0]"] exI [of _ "{0}"]
            exI [of _ "{}"]) (simp add: od)
  qed
qed

lemma spill_engine_minimises: "engine_minimises_cost spill_engine"
  unfolding spill_engine_def
  by (rule table_engine_minimises_cost [OF _ spill_result])
     (simp add: optimizer_precondition_def VirtualStorage_def spill_request_def two_slot_request_def)

lemma spill_run:
  "post_optimize spill_engine spill_request
   = Inr \<lparr> optimal_demand = [0, 0], optimal_shift = [-1, 0],
           original_cost = 2, optimized_cost = 0, cost_savings = 2,
           cost_savings_percent = 2 / 2 * 100,
           remove_spillover = Some [1, 0], add_spillover = Some [0, 0] \<rparr>"
  by (simp add: instance_defs example_defs validation_defs handler_defs)

lemma advance_defined:
  "transfer_defined (VirtualStorage (advance_request p d)) n i j \<longleftrightarrow>
     i < n \<and> j < n \<and> (j = i \<or> i = Suc j)"
  by (auto simp add: transfer_defined_def VirtualStorage_def advance_request_def)

lemma advance_shifted:
  "shifted_demand (VirtualStorage (advance_request p [d0, d1])) [d0, d1] T [0, 0] [0, 0]
   = [d0 + T 1 0, d1 - T 1 0]"
  by (simp add: shifted_demand_def inflow_def outflow_def advance_defined upt_rec)

lemma advance_feasible:
  "feasible (VirtualStorage (advance_request p [d0, d1])) [d0, d1] T [0, 0] [0, 0] \<longleftrightarrow>
     0 \<le> T 0 0 \<and> T 0 0 \<le> 1 \<and> 0 \<le> T 1 0 \<and> T 1 0 \<le> 1 \<and> 0 \<le> T 1 1 \<and> T 1 1 \<le> 1
     \<and> 0 \<le> d0 + T 1 0 \<and> d0 + T 1 0 \<le> 2 \<and> 0 \<le> d1 - T 1 0 \<and> d1 - T 1 0 \<le> 2"
proof -
  have vs: "vs_max_rate (VirtualStorage (advance_request p [d0, d1])) = 1"
    "vs_max_hourly_purchase (VirtualStorage (advance_request p [d0, d1])) = 2"
    "\<not> vs_enforce_charge_direction (VirtualStorage (advance_request p [d0, d1]))"
    by (simp_all add: VirtualStorage_def advance_request_def)
  show ?thesis
    unfolding feasible_def Let_def advance_shifted
    by (auto simp add: advance_defined vs lessThan_Suc less_Suc_eq)
qed

lemma negative_demand_result:
  "optimization_result (VirtualStorage (advance_request [2, 1] [-1, 1])) [2, 1] [-1, 1] None
     [''optimal_demand'' \<mapsto> [0, 0], ''optimal_shift'' \<mapsto> [1, -1]]"
proof -
  have "feasible (VirtualStorage (advance_request [2, 1] [-1, 1])) [-1, 1] advance_one_unit [0, 0] [0, 0]"
    by (simp add: advance_feasible advance_one_unit_def)
  moreover have "shifted_demand (VirtualStorage (advance_request [2, 1] [-1, 1])) [-1, 1]
      advance_one_unit [0, 0] [0, 0] = [0, 0]"
    by (simp add: advance_shifted advance_one_unit_def)
  moreover have "cost [2, 1] [0, 0]
      \<le> cost [2, 1] (shifted_demand (VirtualStorage (advance_request [2, 1] [-1, 1])) [-1, 1] T' [0, 0] [0, 0])"
    if "feasible (VirtualStorage (advance_request [2, 1] [-1, 1])) [-1, 1] T' [0, 0] [0, 0]" for T'
    using that by (simp add: advance_feasible advance_shifted cost_def)
  ultimately show ?thesis
    unfolding optimization_result_def bounded_control_def Let_def
    by (auto simp add: numeral_2_eq_2 intro!: exI [of _ advance_one_unit])
qed

lemma negative_demand_engine_minimises: "engine_minimises_cost negative_demand_engine"
  unfolding negative_demand_engine_def
  by (rule table_engine_minimises_cost)
     (simp add: optimizer_precondition_def VirtualStorage_def advance_request_def,
      rule cost_optimal_result_unbounded [OF negative_demand_result], simp add: bounded_control_def)

lemma negative_demand_run:
  "post_optimize negative_demand_engine (advance_request [2, 1] [-1, 1])
   = Inr \<lparr> optimal_demand = [0, 0], optimal_shift = [1, -1],
           original_cost = -1, optimized_cost = 0, cost_savings = -1,
           cost_savings_percent = 0,
           remove_spillover = None, add_spillover = None \<rparr>"
  by (simp add: instance_defs example_defs validation_defs handler_defs)

text \<open>
  On the two-slot problem with prices \<open>[1, 2]\<close> and demand \<open>[3, 0]\<close> every engine that
  answers gives the same costs: the hourly cap leaves one feasible plan.
\<close>

lemma forced_shift_unavoidable:
  assumes "engine_minimises_cost eng"
    and "post_optimize eng (two_slot_request [1, 2] [3, 0]) = Inr response"
  shows "original_cost response = 3" and "optimized_cost response = 4"
proof -
  let ?body = "two_slot_request [1, 2] [3, 0]"
  have body: "price ?body = [1, 2]" "demand ?body = [3, 0]" "n_control_hours ?body = None"
    by (simp_all add: two_slot_request_def)
  from assms obtain result where
      res: "cost_optimal_result (VirtualStorage ?body) (price ?body) (demand ?body)
              (n_control_hours ?body) result"
    and od: "result ''optimal_demand'' = Some (optimal_demand response)"
    and opt: "optimized_cost response = cost (price ?body) (optimal_demand response)"
    and orig: "original_cost response = cost (price ?body) (demand ?body)"
    and "0 < max_rate ?body"
    by (rule minimising_runD)
  from res obtain T where
      feas: "feasible (VirtualStorage ?body) [3, 0] T [0, 0] [0, 0]"
    and T: "result ''optimal_demand'' = Some (shifted_demand (VirtualStorage ?body) [3, 0] T [0, 0] [0, 0])"
    unfolding cost_optimal_result_def optimization_result_def Let_def body
    by (auto simp add: bounded_control_def numeral_2_eq_2)
  from feas have "T 0 1 = 1"
    by (simp add: two_slot_feasible)
  with od T have "optimal_demand response = [2, 1]"
    by (simp add: two_slot_shifted)
  with opt show "optimized_cost response = 4"
    by (simp add: body cost_def)
  from orig show "original_cost response = 3"
    by (simp add: body cost_def)
qed

text \<open>
  Claim C1, as amended. For a successful response of \<^verbatim>\<open>POST /api/v1/optimize\<close>,
  computed by an engine that returns cost-optimal results as the specification asks,
  with every \<open>demand[i]\<close> between \<open>0\<close> and \<open>max_hourly_purchase\<close>:
  \<open>optimized_cost \<le> original_cost\<close>, with or without a bounded control horizon. Under
  this condition leaving the demand where it is, with no spillover, is a feasible plan,
  and the engine's plan costs no more than any feasible plan.
\<close>

theorem optimized_cost_le_original:
  assumes "engine_minimises_cost eng"
    and "post_optimize eng body = Inr response"
    and "\<forall>i<length (demand body). 0 \<le> demand body ! i \<and> demand body ! i \<le> max_hourly_purchase body"
  shows "optimized_cost response \<le> original_cost response"
proof -
  let ?vs = "VirtualStorage body"
  let ?zero = "replicate (length (demand body)) (0::real)"
  let ?idle = "\<lambda>(i::nat) (j::nat). 0::real"
  from assms(1,2) obtain result where
      res: "cost_optimal_result ?vs (price body) (demand body) (n_control_hours body) result"
    and od: "result ''optimal_demand'' = Some (optimal_demand response)"
    and opt: "optimized_cost response = cost (price body) (optimal_demand response)"
    and orig: "original_cost response = cost (price body) (demand body)"
    and rate: "0 < max_rate body"
    by (rule minimising_runD)
  have idle: "feasible ?vs (demand body) ?idle ?zero ?zero"
    using assms(3) rate by (intro idle_feasible) (simp_all add: VirtualStorage_def)
  have "cost (price body) (optimal_demand response)
        \<le> cost (price body) (shifted_demand ?vs (demand body) ?idle ?zero ?zero)"
  proof (cases "bounded_control (n_control_hours body) (length (demand body))")
    case True
    with res obtain T removed added remove_slots add_slots where
        T: "result ''optimal_demand'' = Some (shifted_demand ?vs (demand body) T removed added)"
      and best: "\<forall>T' removed' added'.
                 feasible ?vs (demand body) T' removed' added'
               \<and> spillover_within remove_slots removed'
               \<and> spillover_within add_slots added'
               \<longrightarrow> cost (price body) (shifted_demand ?vs (demand body) T removed added)
                   \<le> cost (price body) (shifted_demand ?vs (demand body) T' removed' added')"
      unfolding cost_optimal_result_def by blast
    from best idle
    have "cost (price body) (shifted_demand ?vs (demand body) T removed added)
        \<le> cost (price body) (shifted_demand ?vs (demand body) ?idle ?zero ?zero)"
      by simp
    with od T show ?thesis by simp
  next
    case False
    with res obtain T where
        T: "result ''optimal_demand'' = Some (shifted_demand ?vs (demand body) T ?zero ?zero)"
      and best: "\<forall>T'. feasible ?vs (demand body) T' ?zero ?zero \<longrightarrow>
                 cost (price body) (shifted_demand ?vs (demand body) T ?zero ?zero)
                 \<le> cost (price body) (shifted_demand ?vs (demand body) T' ?zero ?zero)"
      by (auto simp add: cost_optimal_result_def optimization_result_def Let_def)
    from best idle
    have "cost (price body) (shifted_demand ?vs (demand body) T ?zero ?zero)
        \<le> cost (price body) (shifted_demand ?vs (demand body) ?idle ?zero ?zero)"
      by blast
    with od T show ?thesis by simp
  qed
  then have "cost (price body) (optimal_demand response) \<le> cost (price body) (demand body)"
    by (simp add: idle_shifted_demand)
  then show ?thesis
    using opt orig by simp
qed

text \<open>
  The two-slot problem with prices \<open>[2, 1]\<close> and demand \<open>[1, 0]\<close>: without a control
  horizon the cost falls from 2 to 1, with a control horizon of one slot from 2 to 0.
\<close>

theorem optimized_cost_le_original_witness:
  "engine_minimises_cost cheap_shift_engine
   \<and> post_optimize cheap_shift_engine (two_slot_request [2, 1] [1, 0])
       = Inr \<lparr> optimal_demand = [0, 1], optimal_shift = [-1, 1],
               original_cost = 2, optimized_cost = 1, cost_savings = 1,
               cost_savings_percent = 1 / 2 * 100,
               remove_spillover = None, add_spillover = None \<rparr>
   \<and> list_all (\<lambda>d. 0 \<le> d \<and> d \<le> max_hourly_purchase (two_slot_request [2, 1] [1, 0]))
        (demand (two_slot_request [2, 1] [1, 0]))
   \<and> (1::real) \<le> 2
   \<and> engine_minimises_cost spill_engine
   \<and> bounded_control (n_control_hours spill_request) (length (demand spill_request))
   \<and> post_optimize spill_engine spill_request
       = Inr \<lparr> optimal_demand = [0, 0], optimal_shift = [-1, 0],
               original_cost = 2, optimized_cost = 0, cost_savings = 2,
               cost_savings_percent = 2 / 2 * 100,
               remove_spillover = Some [1, 0], add_spillover = Some [0, 0] \<rparr>
   \<and> list_all (\<lambda>d. 0 \<le> d \<and> d \<le> max_hourly_purchase spill_request) (demand spill_request)
   \<and> (0::real) \<le> 2"
  using optimized_cost_le_original [OF cheap_shift_engine_minimises cheap_shift_run]
    optimized_cost_le_original [OF spill_engine_minimises spill_run]
    cheap_shift_engine_minimises cheap_shift_run spill_engine_minimises spill_run
  by (simp add: two_slot_request_def spill_request_def bounded_control_def)

text \<open>
  Claim C1 as stated fails on valid requests whose demand is outside \<open>[0, max_hourly_purchase]\<close>.
  With prices \<open>[1, 2]\<close>, demand \<open>[3, 0]\<close>, \<open>max_hourly_purchase = 2\<close>, \<open>max_rate = 1\<close>, no
  advance and one slot of delay, the only feasible plan moves one unit from slot 0 to the
  dearer slot 1: the optimized cost is 4, the original cost 3, and no engine that returns
  cost-optimal results answers this request with a cost of at most 3. With prices
  \<open>[2, 1]\<close>, demand \<open>[-1, 1]\<close>, one slot of advance and no delay, the only feasible plan
  fills slot 0 from slot 1: the optimized cost is 0, the original cost -1.
\<close>

theorem optimized_cost_can_exceed_original:
  "engine_minimises_cost forced_shift_engine
   \<and> OptimizationRequest (two_slot_request [1, 2] [3, 0]) = Inr (two_slot_request [1, 2] [3, 0])
   \<and> post_optimize forced_shift_engine (two_slot_request [1, 2] [3, 0])
       = Inr \<lparr> optimal_demand = [2, 1], optimal_shift = [-1, 1],
               original_cost = 3, optimized_cost = 4, cost_savings = -1,
               cost_savings_percent = -1 / 3 * 100,
               remove_spillover = None, add_spillover = None \<rparr>
   \<and> \<not> (\<exists>eng response.
          engine_minimises_cost eng
        \<and> post_optimize eng (two_slot_request [1, 2] [3, 0]) = Inr response
        \<and> optimized_cost response \<le> original_cost response)
   \<and> engine_minimises_cost negative_demand_engine
   \<and> OptimizationRequest (advance_request [2, 1] [-1, 1]) = Inr (advance_request [2, 1] [-1, 1])
   \<and> post_optimize negative_demand_engine (advance_request [2, 1] [-1, 1])
       = Inr \<lparr> optimal_demand = [0, 0], optimal_shift = [1, -1],
               original_cost = -1, optimized_cost = 0, cost_savings = -1,
               cost_savings_percent = 0,
               remove_spillover = None, add_spillover = None \<rparr>
   \<and> \<not> (\<forall>eng body response.
          engine_minimises_cost eng \<and> post_optimize eng body = Inr response
          \<longrightarrow> optimized_cost response \<le> original_cost response)"
proof (intro conjI)
  show "engine_minimises_cost forced_shift_engine"
    by (rule forced_shift_engine_minimises)
  show "OptimizationRequest (two_slot_request [1, 2] [3, 0]) = Inr (two_slot_request [1, 2] [3, 0])"
    by (simp add: two_slot_request_def validation_defs)
  show "post_optimize forced_shift_engine (two_slot_request [1, 2] [3, 0])
       = Inr \<lparr> optimal_demand = [2, 1], optimal_shift = [-1, 1],
               original_cost = 3, optimized_cost = 4, cost_savings = -1,
               cost_savings_percent = -1 / 3 * 100,
               remove_spillover = None, add_spillover = None \<rparr>"
    by (rule forced_shift_run)
  show "\<not> (\<exists>eng response.
          engine_minimises_cost eng
        \<and> post_optimize eng (two_slot_request [1, 2] [3, 0]) = Inr response
        \<and> optimized_cost response \<le> original_cost response)"
  proof
    assume "\<exists>eng response.
          engine_minimises_cost eng
        \<and> post_optimize eng (two_slot_request [1, 2] [3, 0]) = Inr response
        \<and> optimized_cost response \<le> original_cost response"
    then obtain eng response where
        eng: "engine_minimises_cost eng"
      and run: "post_optimize eng (two_slot_request [1, 2] [3, 0]) = Inr response"
      and le: "optimized_cost response \<le> original_cost response"
      by blast
    from eng run have "original_cost response = 3" and "optimized_cost response = 4"
      by (rule forced_shift_unavoidable)+
    with le show False by simp
  qed
  show "engine_minimises_cost negative_demand_engine"
    by (rule negative_demand_engine_minimises)
  show "OptimizationRequest (advance_request [2, 1] [-1, 1]) = Inr (advance_request [2, 1] [-1, 1])"
    by (simp add: advance_request_def validation_defs)
  show "post_optimize negative_demand_engine (advance_request [2, 1] [-1, 1])
       = Inr \<lparr> optimal_demand = [0, 0], optimal_shift = [1, -1],
               original_cost = -1, optimized_cost = 0, cost_savings = -1,
               cost_savings_percent = 0,
               remove_spillover = None, add_spillover = None \<rparr>"
    by (rule negative_demand_run)
  show "\<not> (\<forall>eng body response.
          engine_minimises_cost eng \<and> post_optimize eng body = Inr response
          \<longrightarrow> optimized_cost response \<le> original_cost response)"
  proof
    assume "\<forall>eng body response.
          engine_minimises_cost eng \<and> post_optimize eng body = Inr response
          \<longrightarrow> optimized_cost response \<le> original_cost response"
    with forced_shift_engine_minimises forced_shift_run
    have "optimized_cost \<lparr> optimal_demand = [2, 1], optimal_shift = [-1, 1],
               original_cost = 3, optimized_cost = 4, cost_savings = -1,
               cost_savings_percent = -1 / 3 * 100,
               remove_spillover = None, add_spillover = None \<rparr>
          \<le> original_cost \<lparr> optimal_demand = [2, 1], optimal_shift = [-1, 1],
               original_cost = 3, optimized_cost = 4, cost_savings = -1,
               cost_savings_percent = -1 / 3 * 100,
               remove_spillover = None, add_spillover = None \<rparr>"
      by blast
    then show False by simp
  qed
qed

end
